theory Spec2Isabelle
  imports Main "HOL-Library.Sublist" "HOL-Library.AList"
begin

section \<open>JavaScript values as the handlers see them\<close>

text \<open>
  The handlers of \<^verbatim>\<open>src/index.ts\<close> receive and return untyped JavaScript data
  (\<^verbatim>\<open>any\<close>). Values are modelled by \<open>jsval\<close>; an object is an association list in
  property order with distinct keys. Numbers are restricted to integers (floating
  point is outside the model).
\<close>

datatype jsval =
    JUndefined
  | JNull
  | JBool bool
  | JNum int
  | JStr string
  | JArr "jsval list"
  | JObj "(string \<times> jsval) list"

type_synonym jsobj = "(string \<times> jsval) list"

text \<open>A thrown JavaScript error: \<^verbatim>\<open>new Error(message)\<close> or a runtime \<^verbatim>\<open>TypeError\<close>.\<close>

datatype error = Error string | TypeError string | SyntaxError string

fun message :: "error \<Rightarrow> string" where
  "message (Error m) = m"
| "message (TypeError m) = m"
| "message (SyntaxError m) = m"

text \<open>\<^verbatim>\<open>String(error)\<close>: the error's name, followed by its message when there is one.\<close>

fun String_error :: "error \<Rightarrow> string" where
  "String_error (Error m) = (if m = [] then ''Error'' else ''Error: '' @ m)"
| "String_error (TypeError m) = (if m = [] then ''TypeError'' else ''TypeError: '' @ m)"
| "String_error (SyntaxError m) = (if m = [] then ''SyntaxError'' else ''SyntaxError: '' @ m)"

text \<open>Decimal rendering of numbers, as a template literal prints them.\<close>

fun string_of_nat :: "nat \<Rightarrow> string" where
  "string_of_nat n =
     (if n < 10 then [char_of (48 + n)]
      else string_of_nat (n div 10) @ [char_of (48 + n mod 10)])"

declare string_of_nat.simps [simp del]

definition string_of_int :: "int \<Rightarrow> string" where
  "string_of_int i = (if i < 0 then CHR ''-'' # string_of_nat (nat (- i)) else string_of_nat (nat i))"

text \<open>\<^verbatim>\<open>xs.join(sep)\<close> on an array of strings.\<close>

fun join :: "string \<Rightarrow> string list \<Rightarrow> string" where
  "join sep [] = []"
| "join sep [x] = x"
| "join sep (x # y # ys) = x @ sep @ join sep (y # ys)"

text \<open>
  String coercion of a value inside a template literal (\<^verbatim>\<open>`${v}`\<close>). Inside an array,
  \<^verbatim>\<open>null\<close> and \<^verbatim>\<open>undefined\<close> elements print as the empty string.
\<close>

fun toString :: "jsval \<Rightarrow> string" where
  "toString JUndefined = ''undefined''"
| "toString JNull = ''null''"
| "toString (JBool b) = (if b then ''true'' else ''false'')"
| "toString (JNum n) = string_of_int n"
| "toString (JStr s) = s"
| "toString (JArr xs) =
     join '','' (map (\<lambda>x. if x = JUndefined \<or> x = JNull then [] else toString x) xs)"
| "toString (JObj kvs) = ''[object Object]''"

text \<open>Truthiness, as tested by \<^verbatim>\<open>if (v)\<close>, \<^verbatim>\<open>!v\<close>, \<^verbatim>\<open>a || b\<close> and \<^verbatim>\<open>a && b\<close>.\<close>

fun truthy :: "jsval \<Rightarrow> bool" where
  "truthy JUndefined = False"
| "truthy JNull = False"
| "truthy (JBool b) = b"
| "truthy (JNum n) = (n \<noteq> 0)"
| "truthy (JStr s) = (s \<noteq> [])"
| "truthy (JArr xs) = True"
| "truthy (JObj kvs) = True"

text \<open>
  \<^verbatim>\<open>xs.join(sep)\<close> on an array of arbitrary values: \<^verbatim>\<open>null\<close> and \<^verbatim>\<open>undefined\<close>
  elements print as the empty string.
\<close>

definition js_join :: "string \<Rightarrow> jsval list \<Rightarrow> string" where
  "js_join sep xs = join sep (map (\<lambda>x. if x = JUndefined \<or> x = JNull then [] else toString x) xs)"

text \<open>\<^verbatim>\<open>a || b\<close>\<close>

definition js_or :: "jsval \<Rightarrow> jsval \<Rightarrow> jsval" where
  "js_or a b = (if truthy a then a else b)"

text \<open>Property read \<^verbatim>\<open>obj[key]\<close> on an object: \<^verbatim>\<open>undefined\<close> when the key is absent.\<close>

definition get_prop :: "jsobj \<Rightarrow> string \<Rightarrow> jsval" where
  "get_prop kvs k = (case map_of kvs k of None \<Rightarrow> JUndefined | Some v \<Rightarrow> v)"

text \<open>
  Property read \<^verbatim>\<open>v.key\<close> on an arbitrary value: a \<^verbatim>\<open>TypeError\<close> on \<^verbatim>\<open>null\<close> and
  \<^verbatim>\<open>undefined\<close>, \<^verbatim>\<open>undefined\<close> on a primitive or an array (their built-in properties,
  such as \<^verbatim>\<open>length\<close>, are not among the keys the handlers read).
\<close>

fun member :: "jsval \<Rightarrow> string \<Rightarrow> error + jsval" where
  "member JUndefined k =
     Inl (TypeError (''Cannot read properties of undefined (reading '' @ [CHR 0x27] @ k @ [CHR 0x27] @ '')''))"
| "member JNull k =
     Inl (TypeError (''Cannot read properties of null (reading '' @ [CHR 0x27] @ k @ [CHR 0x27] @ '')''))"
| "member (JObj kvs) k = Inr (get_prop kvs k)"
| "member v k = Inr JUndefined"

text \<open>\<^verbatim>\<open>xs[0]\<close> on an array: \<^verbatim>\<open>undefined\<close> when it is empty.\<close>

definition first_elem :: "jsval list \<Rightarrow> jsval" where
  "first_elem xs = (case xs of [] \<Rightarrow> JUndefined | x # _ \<Rightarrow> x)"

text \<open>An optional string argument as a value.\<close>

definition opt_val :: "string option \<Rightarrow> jsval" where
  "opt_val x = (case x of None \<Rightarrow> JUndefined | Some s \<Rightarrow> JStr s)"

text \<open>\<^verbatim>\<open>x || d\<close> for an optional string and a default.\<close>

definition or_default :: "string option \<Rightarrow> string \<Rightarrow> string" where
  "or_default x d = (case x of None \<Rightarrow> d | Some s \<Rightarrow> if s = [] then d else s)"

text \<open>\<^verbatim>\<open>s.toUpperCase()\<close> on ASCII letters.\<close>

definition toUpperCase :: "string \<Rightarrow> string" where
  "toUpperCase s =
     map (\<lambda>c. if 97 \<le> (of_char c :: nat) \<and> (of_char c :: nat) \<le> 122
              then char_of ((of_char c :: nat) - 32) else c) s"

text \<open>\<^verbatim>\<open>s.split(' ')\<close>: the pieces between single spaces; never an empty array.\<close>

fun split_space :: "string \<Rightarrow> string list" where
  "split_space [] = [[]]"
| "split_space (c # cs) =
     (if c = CHR '' '' then [] # split_space cs
      else (case split_space cs of [] \<Rightarrow> [[c]] | t # ts \<Rightarrow> (c # t) # ts))"

text \<open>
  An optional string argument (\<^verbatim>\<open>x?: string\<close>): \<open>None\<close> is \<^verbatim>\<open>undefined\<close>. It is falsy
  when absent or empty.
\<close>

definition present :: "string option \<Rightarrow> bool" where
  "present x = (case x of None \<Rightarrow> False | Some s \<Rightarrow> s \<noteq> [])"

text \<open>\<^verbatim>\<open>`${x}`\<close> for a value the platform types as \<^verbatim>\<open>string | null\<close>.\<close>

definition nullable_str :: "string option \<Rightarrow> string" where
  "nullable_str x = (case x of None \<Rightarrow> ''null'' | Some s \<Rightarrow> s)"

text \<open>
  The source writes its line breaks as \<^verbatim>\<open>\\n\<close> inside ordinary and template string
  literals, which denotes the two characters backslash and \<open>n\<close>.
\<close>

definition bsn :: string where
  "bsn = [CHR 0x5C, CHR ''n'']"

text \<open>A real line feed, as it occurs inside the multi-line template literals.\<close>

definition lf :: string where
  "lf = [CHR 0x0A]"

section \<open>Sessions, platform calls and the call trace\<close>

text \<open>
  The connection object handed to every handler: for the OAuth flow it is built from the
  token response (whose fields are untyped), for the password flow it is filled in by the
  login call.
\<close>

record session =
  instanceUrl :: jsval
  accessToken :: jsval
  version :: "string option"

text \<open>
  Every network operation the modelled handlers can issue. The OAuth token request is
  recorded by the instance URL it is sent to and the client id and secret it carries;
  the login by the login URL, the API version given to the connection (if any), the
  user name and the password value; the other calls are the jsforce calls of the source
  with their arguments.
\<close>

datatype api_call =
    Query string
  | SObjectCreate string "jsobj list"
  | SObjectCreateOne string jsobj
  | SObjectUpdate string "jsobj list"
  | SObjectDestroy string "jsval list"
  | SObjectUpsert string "jsobj list" string
  | MetadataCall string string jsval
  | MetadataRead string "string list"
  | ToolingExecuteAnonymous string

datatype net_op =
    TokenPost string string string
  | Login string "string option" string string
  | Api session api_call

type_synonym trace = "net_op list"

text \<open>The result of \<^verbatim>\<open>conn.tooling.executeAnonymous\<close>, typed as jsforce declares it.\<close>

record exec_result =
  compiled :: bool
  success :: bool
  line :: int
  column :: int
  compileProblem :: "string option"
  exceptionMessage :: "string option"
  exceptionStackTrace :: "string option"

text \<open>One entry of a bulk DML result (jsforce's \<^verbatim>\<open>SaveResult\<close>).\<close>

datatype save_errors = ErrorList "jsobj list" | ErrorOne jsobj

record save_result =
  sr_success :: bool
  sr_id :: "string option"
  sr_errors :: "save_errors option"

text \<open>What a DML call resolves to: an array of results, or a single result.\<close>

datatype dml_reply = ResultArray "save_result list" | ResultOne save_result

text \<open>The outcome of the HTTPS exchange with the token endpoint.\<close>

datatype http_outcome = HttpResponse int string | HttpError error

text \<open>
  The platform is an oracle: given the operations issued so far and the next operation,
  it either throws or answers. One reply function per kind of answer. The JSON parser
  and the URL parser of the runtime are parameters of the same environment
  (\<^verbatim>\<open>JSON.parse\<close> returns its \<^verbatim>\<open>SyntaxError\<close> on the left, \<^verbatim>\<open>new URL\<close> throws where
  \<open>URL_ok\<close> is false, \<^verbatim>\<open>parseInt\<close> is \<open>None\<close> for \<^verbatim>\<open>NaN\<close>).
\<close>

record platform =
  token_reply :: "trace \<Rightarrow> net_op \<Rightarrow> http_outcome"
  login_reply :: "trace \<Rightarrow> net_op \<Rightarrow> error + (string \<times> string)"
  query_reply :: "trace \<Rightarrow> net_op \<Rightarrow> error + jsobj list"
  dml_reply :: "trace \<Rightarrow> net_op \<Rightarrow> error + dml_reply"
  metadata_reply :: "trace \<Rightarrow> net_op \<Rightarrow> error + jsval"
  exec_reply :: "trace \<Rightarrow> net_op \<Rightarrow> error + exec_result"
  JSON_parse :: "string \<Rightarrow> error + jsval"
  URL_ok :: "string \<Rightarrow> bool"
  parseInt :: "string \<Rightarrow> int option"

section \<open>Configuration and session acquisition (index.ts)\<close>

text \<open>
  \<^verbatim>\<open>ExtensionConfig\<close>. The connection type is read from the environment by a cast, so any
  string can arrive; the optional credentials are \<open>None\<close> when the variable is unset.
\<close>

record ExtensionConfig =
  connectionType :: string
  cfg_instanceUrl :: string
  username :: "string option"
  password :: "string option"
  securityToken :: "string option"
  clientId :: "string option"
  clientSecret :: "string option"
  apiVersion :: string
  timeout :: "int option"
  logLevel :: string

text \<open>\<^verbatim>\<open>initConfig\<close>: \<^verbatim>\<open>process.env.X || default\<close> replaces an unset or empty variable.\<close>

definition initConfig :: "platform \<Rightarrow> (string \<rightharpoonup> string) \<Rightarrow> ExtensionConfig" where
  "initConfig p env =
     \<lparr>connectionType = or_default (env ''SALESFORCE_CONNECTION_TYPE'') ''User_Password'',
      cfg_instanceUrl = or_default (env ''SALESFORCE_INSTANCE_URL'') ''https://login.salesforce.com'',
      username = env ''SALESFORCE_USERNAME'',
      password = env ''SALESFORCE_PASSWORD'',
      securityToken = env ''SALESFORCE_TOKEN'',
      clientId = env ''SALESFORCE_CLIENT_ID'',
      clientSecret = env ''SALESFORCE_CLIENT_SECRET'',
      apiVersion = or_default (env ''SALESFORCE_API_VERSION'') ''58.0'',
      timeout = parseInt p (or_default (env ''SALESFORCE_TIMEOUT'') ''30000''),
      logLevel = or_default (env ''SALESFORCE_LOG_LEVEL'') ''info''\<rparr>"

text \<open>
  The callback of the token request: parse the body; a non-200 status rejects with the
  platform's error fields, read from the parsed body. Anything thrown inside the
  \<^verbatim>\<open>try\<close> (the parser's \<^verbatim>\<open>SyntaxError\<close>, a \<^verbatim>\<open>TypeError\<close> on a \<^verbatim>\<open>null\<close> body) rejects with
  the parse-failure message.
\<close>

definition token_response_end :: "platform \<Rightarrow> int \<Rightarrow> string \<Rightarrow> error + jsval" where
  "token_response_end p statusCode data =
     (case JSON_parse p data of
        Inl e \<Rightarrow> Inl (Error (''Failed to parse OAuth response: '' @ String_error e))
      | Inr parsed \<Rightarrow>
          if statusCode \<noteq> 200 then
            (case member parsed ''error'' of
               Inl e \<Rightarrow> Inl (Error (''Failed to parse OAuth response: '' @ String_error e))
             | Inr err \<Rightarrow>
                 (case member parsed ''error_description'' of
                    Inl e \<Rightarrow> Inl (Error (''Failed to parse OAuth response: '' @ String_error e))
                  | Inr descr \<Rightarrow>
                      Inl (Error (''OAuth failed: '' @ toString err @ '' - '' @ toString descr))))
          else Inr parsed)"

text \<open>
  \<^verbatim>\<open>createConnectionInternal\<close>. Its \<^verbatim>\<open>catch\<close> logs and rethrows, so the error is returned as
  it is. The trace grows by exactly the network operations issued.
\<close>

definition createConnectionInternal ::
  "platform \<Rightarrow> ExtensionConfig \<Rightarrow> trace \<Rightarrow> (error + session) \<times> trace" where
  "createConnectionInternal p config tr =
     (if connectionType config = ''OAuth_2.0_Client_Credentials'' then
        (if \<not> present (clientId config) \<or> \<not> present (clientSecret config) then
           (Inl (Error ''Client ID and Client Secret are required for OAuth 2.0''), tr)
         else if \<not> URL_ok p (cfg_instanceUrl config) then
           (Inl (TypeError ''Invalid URL''), tr)
         else
           (let call = TokenPost (cfg_instanceUrl config)
                         (or_default (clientId config) []) (or_default (clientSecret config) []) in
            case token_reply p tr call of
              HttpError e \<Rightarrow> (Inl e, tr @ [call])
            | HttpResponse statusCode data \<Rightarrow>
                (case token_response_end p statusCode data of
                   Inl e \<Rightarrow> (Inl e, tr @ [call])
                 | Inr tokenResponse \<Rightarrow>
                     (case member tokenResponse ''instance_url'' of
                        Inl e \<Rightarrow> (Inl e, tr @ [call])
                      | Inr url \<Rightarrow>
                          (case member tokenResponse ''access_token'' of
                             Inl e \<Rightarrow> (Inl e, tr @ [call])
                           | Inr token \<Rightarrow>
                               (Inr \<lparr>instanceUrl = url, accessToken = token, version = None\<rparr>,
                                tr @ [call]))))))
      else
        (if \<not> present (username config) \<or> \<not> present (password config) then
           (Inl (Error ''Username and Password are required''), tr)
         else
           (let call = Login (cfg_instanceUrl config) (Some (apiVersion config))
                         (or_default (username config) [])
                         (or_default (password config) [] @ or_default (securityToken config) []) in
            case login_reply p tr call of
              Inl e \<Rightarrow> (Inl e, tr @ [call])
            | Inr (serverUrl, sessionId) \<Rightarrow>
                (Inr \<lparr>instanceUrl = JStr serverUrl, accessToken = JStr sessionId,
                      version = Some (apiVersion config)\<rparr>,
                 tr @ [call]))))"

text \<open>
  \<^verbatim>\<open>createSalesforceConnection\<close> races \<^verbatim>\<open>createConnectionInternal\<close> against a timer. Timers
  are outside the model: it covers the exchanges that settle before the deadline.
\<close>

definition createSalesforceConnection ::
  "platform \<Rightarrow> ExtensionConfig \<Rightarrow> trace \<Rightarrow> (error + session) \<times> trace" where
  "createSalesforceConnection p config tr = createConnectionInternal p config tr"

section \<open>Session acquisition (utils/connection.ts)\<close>

text \<open>
  The enum \<^verbatim>\<open>ConnectionType\<close> is declared in \<^verbatim>\<open>types/connection\<close>, which is not among the
  sources: the string values of its two members are parameters.
\<close>

record ConnectionType =
  User_Password :: string
  OAuth_2_0_Client_Credentials :: string

text \<open>
  \<^verbatim>\<open>createSalesforceConnection\<close> of the modular server reads the environment itself. It
  has no timer, and gives the connection no API version.
\<close>

definition connection_createSalesforceConnection ::
  "platform \<Rightarrow> ConnectionType \<Rightarrow> (string \<rightharpoonup> string) \<Rightarrow> trace \<Rightarrow> (error + session) \<times> trace" where
  "connection_createSalesforceConnection p ct env tr =
     (let connectionType = or_default (env ''SALESFORCE_CONNECTION_TYPE'') (User_Password ct);
          loginUrl = or_default (env ''SALESFORCE_INSTANCE_URL'') ''https://login.salesforce.com''
      in
      if connectionType = OAuth_2_0_Client_Credentials ct then
        (if \<not> present (env ''SALESFORCE_CLIENT_ID'') \<or> \<not> present (env ''SALESFORCE_CLIENT_SECRET'') then
           (Inl (Error ''SALESFORCE_CLIENT_ID and SALESFORCE_CLIENT_SECRET are required for OAuth 2.0''), tr)
         else if \<not> URL_ok p loginUrl then
           (Inl (TypeError ''Invalid URL''), tr)
         else
           (let call = TokenPost loginUrl (or_default (env ''SALESFORCE_CLIENT_ID'') [])
                         (or_default (env ''SALESFORCE_CLIENT_SECRET'') []) in
            case token_reply p tr call of
              HttpError e \<Rightarrow> (Inl e, tr @ [call])
            | HttpResponse statusCode data \<Rightarrow>
                (case token_response_end p statusCode data of
                   Inl e \<Rightarrow> (Inl e, tr @ [call])
                 | Inr tokenResponse \<Rightarrow>
                     (case member tokenResponse ''instance_url'' of
                        Inl e \<Rightarrow> (Inl e, tr @ [call])
                      | Inr url \<Rightarrow>
                          (case member tokenResponse ''access_token'' of
                             Inl e \<Rightarrow> (Inl e, tr @ [call])
                           | Inr token \<Rightarrow>
                               (Inr \<lparr>instanceUrl = url, accessToken = token, version = None\<rparr>,
                                tr @ [call]))))))
      else
        (if \<not> present (env ''SALESFORCE_USERNAME'') \<or> \<not> present (env ''SALESFORCE_PASSWORD'') then
           (Inl (Error ''SALESFORCE_USERNAME and SALESFORCE_PASSWORD are required for Username/Password authentication''), tr)
         else
           (let call = Login loginUrl None
                         (or_default (env ''SALESFORCE_USERNAME'') [])
                         (or_default (env ''SALESFORCE_PASSWORD'') [] @ or_default (env ''SALESFORCE_TOKEN'') []) in
            case login_reply p tr call of
              Inl e \<Rightarrow> (Inl e, tr @ [call])
            | Inr (serverUrl, sessionId) \<Rightarrow>
                (Inr \<lparr>instanceUrl = JStr serverUrl, accessToken = JStr sessionId, version = None\<rparr>,
                 tr @ [call]))))"

section \<open>The uniform response\<close>

record content_item =
  ctype :: string
  ctext :: string

record response =
  content :: "content_item list"
  isError :: "bool option"

text \<open>\<^verbatim>\<open>{ content: [{ type: "text", text }] }\<close>: the handlers of index.ts set no isError key.\<close>

definition text_response :: "string \<Rightarrow> response" where
  "text_response t = \<lparr>content = [\<lparr>ctype = ''text'', ctext = t\<rparr>], isError = None\<rparr>"

text \<open>
  The \<^verbatim>\<open>catch\<close> of \<^verbatim>\<open>handleToolCall\<close>:
  \<^verbatim>\<open>{ content: [{ type: "text", text: `Error: ${error.message || String(error)}` }], isError: true }\<close>.
\<close>

definition error_response :: "error \<Rightarrow> response" where
  "error_response e =
     \<lparr>content = [\<lparr>ctype = ''text'',
                   ctext = ''Error: '' @ (if message e \<noteq> [] then message e else String_error e)\<rparr>],
      isError = Some True\<rparr>"

section \<open>dmlRecords\<close>

record dml_args =
  dml_operation :: string
  dml_objectName :: string
  dml_records :: "jsobj list"
  dml_externalIdField :: "string option"

text \<open>\<^verbatim>\<open>formatErrors\<close>\<close>

definition formatErrors :: "save_errors \<Rightarrow> string" where
  "formatErrors errors =
     (case errors of
        ErrorList es \<Rightarrow> js_join '', '' (map (\<lambda>e. get_prop e ''message'') es)
      | ErrorOne e \<Rightarrow> toString (js_or (get_prop e ''message'') (JStr (toString (JObj e)))))"

text \<open>\<^verbatim>\<open>Array.isArray(result) ? result : [result]\<close>\<close>

definition results_of :: "dml_reply \<Rightarrow> save_result list" where
  "results_of rep = (case rep of ResultArray rs \<Rightarrow> rs | ResultOne r \<Rightarrow> [r])"

text \<open>The lines appended by the \<^verbatim>\<open>forEach\<close> over the results, with their zero-based index.\<close>

definition dml_error_line :: "nat \<times> save_result \<Rightarrow> string" where
  "dml_error_line ir =
     (case ir of (idx, r) \<Rightarrow>
        (case sr_errors r of
           None \<Rightarrow> []
         | Some errors \<Rightarrow>
             if \<not> sr_success r
             then ''Record '' @ string_of_nat (idx + 1) @ '': '' @ formatErrors errors @ bsn
             else []))"

text \<open>The report built from the operation name and the results.\<close>

definition dml_report :: "string \<Rightarrow> save_result list \<Rightarrow> string" where
  "dml_report operation results =
     (let success = length (filter sr_success results);
          failed = length results - success;
          t = toUpperCase operation @ '' completed: '' @ string_of_nat success
              @ '' successful, '' @ string_of_nat failed @ '' failed''
      in if failed > 0
         then t @ bsn @ bsn @ ''Errors:'' @ bsn @ concat (map dml_error_line (List.enumerate 0 results))
         else t)"

definition dml_issue ::
  "platform \<Rightarrow> session \<Rightarrow> string \<Rightarrow> api_call \<Rightarrow> trace \<Rightarrow> (error + response) \<times> trace" where
  "dml_issue p conn operation c tr =
     (case dml_reply p tr (Api conn c) of
        Inl e \<Rightarrow> (Inl e, tr @ [Api conn c])
      | Inr result \<Rightarrow>
          (Inr (text_response (dml_report operation (results_of result))), tr @ [Api conn c]))"

text \<open>
  \<^verbatim>\<open>dmlRecords\<close>. The \<^verbatim>\<open>switch\<close> has no default: for any other operation \<^verbatim>\<open>result\<close> stays
  \<^verbatim>\<open>undefined\<close> and reading \<^verbatim>\<open>success\<close> of it throws.
\<close>

definition dmlRecords ::
  "platform \<Rightarrow> session \<Rightarrow> dml_args \<Rightarrow> trace \<Rightarrow> (error + response) \<times> trace" where
  "dmlRecords p conn args tr =
     (if dml_operation args = ''insert'' then
        dml_issue p conn (dml_operation args)
          (SObjectCreate (dml_objectName args) (dml_records args)) tr
      else if dml_operation args = ''update'' then
        dml_issue p conn (dml_operation args)
          (SObjectUpdate (dml_objectName args) (dml_records args)) tr
      else if dml_operation args = ''delete'' then
        dml_issue p conn (dml_operation args)
          (SObjectDestroy (dml_objectName args) (map (\<lambda>r. get_prop r ''Id'') (dml_records args))) tr
      else if dml_operation args = ''upsert'' then
        (if \<not> present (dml_externalIdField args) then
           (Inl (Error ''externalIdField required for upsert''), tr)
         else
           dml_issue p conn (dml_operation args)
             (SObjectUpsert (dml_objectName args) (dml_records args)
                (or_default (dml_externalIdField args) [])) tr)
      else
        (Inl (TypeError (''Cannot read properties of undefined (reading '' @ [CHR 0x27]
                          @ ''success'' @ [CHR 0x27] @ '')'')), tr))"

section \<open>aggregateQuery\<close>

record agg_args =
  agg_objectName :: string
  agg_selectFields :: "string list"
  agg_groupByFields :: "string list"
  agg_whereClause :: "string option"
  agg_havingClause :: "string option"
  agg_orderBy :: "string option"
  agg_limit :: "int option"

text \<open>\<^verbatim>\<open>field.split(' ')[0]\<close> and \<^verbatim>\<open>field.split(' ').pop()\<close>\<close>

definition baseField_of :: "string \<Rightarrow> string" where
  "baseField_of field = (case split_space field of [] \<Rightarrow> [] | t # _ \<Rightarrow> t)"

definition alias_of :: "string \<Rightarrow> string" where
  "alias_of field = (case rev (split_space field) of [] \<Rightarrow> [] | t # _ \<Rightarrow> t)"

definition aggregate_soql :: "agg_args \<Rightarrow> string" where
  "aggregate_soql args =
     ''SELECT '' @ join '', '' (agg_selectFields args) @ '' FROM '' @ agg_objectName args
     @ (if present (agg_whereClause args) then '' WHERE '' @ or_default (agg_whereClause args) [] else [])
     @ '' GROUP BY '' @ join '', '' (agg_groupByFields args)
     @ (if present (agg_havingClause args) then '' HAVING '' @ or_default (agg_havingClause args) [] else [])
     @ (if present (agg_orderBy args) then '' ORDER BY '' @ or_default (agg_orderBy args) [] else [])
     @ (case agg_limit args of
          None \<Rightarrow> []
        | Some n \<Rightarrow> if n \<noteq> 0 then '' LIMIT '' @ string_of_int n else [])"

text \<open>The value extracted for one select-field: \<^verbatim>\<open>record[alias] || record[baseField]\<close>.\<close>

definition group_value :: "jsobj \<Rightarrow> string \<Rightarrow> jsval" where
  "group_value record field = js_or (get_prop record (alias_of field)) (get_prop record (baseField_of field))"

definition group_field_line :: "jsobj \<Rightarrow> string \<Rightarrow> string" where
  "group_field_line record field =
     (let v = group_value record field in
      ''    '' @ alias_of field @ '': ''
      @ (if v \<noteq> JNull \<and> v \<noteq> JUndefined then toString v else ''null''))"

definition group_block :: "string list \<Rightarrow> nat \<times> jsobj \<Rightarrow> string" where
  "group_block selectFields ir =
     (case ir of (idx, record) \<Rightarrow>
        ''Group '' @ string_of_nat (idx + 1) @ '':'' @ bsn
        @ join bsn (map (group_field_line record) selectFields))"

definition aggregate_text :: "string list \<Rightarrow> jsobj list \<Rightarrow> string" where
  "aggregate_text selectFields records =
     ''Aggregate query returned '' @ string_of_nat (length records) @ '' groups:'' @ bsn @ bsn
     @ join (bsn @ bsn) (map (group_block selectFields) (List.enumerate 0 records))"

definition aggregateQuery ::
  "platform \<Rightarrow> session \<Rightarrow> agg_args \<Rightarrow> trace \<Rightarrow> (error + response) \<times> trace" where
  "aggregateQuery p conn args tr =
     (let call = Api conn (Query (aggregate_soql args)) in
      case query_reply p tr call of
        Inl e \<Rightarrow> (Inl e, tr @ [call])
      | Inr records \<Rightarrow>
          (Inr (text_response (aggregate_text (agg_selectFields args) records)), tr @ [call]))"

section \<open>manageObject\<close>

record mo_args =
  mo_operation :: string
  mo_objectName :: string
  mo_label :: "string option"
  mo_pluralLabel :: "string option"
  mo_description :: "string option"
  mo_nameFieldLabel :: "string option"
  mo_nameFieldType :: "string option"
  mo_nameFieldFormat :: "string option"
  mo_sharingModel :: "string option"

text \<open>\<^verbatim>\<open>Array.isArray(result) ? result[0].success : result.success\<close>\<close>

definition result_success :: "jsval \<Rightarrow> error + jsval" where
  "result_success result =
     (case result of
        JArr xs \<Rightarrow> member (first_elem xs) ''success''
      | v \<Rightarrow> member v ''success'')"

subsection \<open>The handler of index.ts\<close>

text \<open>The descriptor is built from the arguments, whatever the operation.\<close>

definition manageObject_metadata :: "mo_args \<Rightarrow> jsobj" where
  "manageObject_metadata args =
     (let nameField0 =
            [(''label'', JStr (or_default (mo_nameFieldLabel args)
                                 (toString (opt_val (mo_label args)) @ '' Name''))),
             (''type'', JStr (or_default (mo_nameFieldType args) ''Text''))];
          nameField =
            (if present (mo_nameFieldFormat args)
             then AList.update ''displayFormat'' (opt_val (mo_nameFieldFormat args)) nameField0
             else nameField0);
          metadata0 =
            [(''fullName'', JStr (mo_objectName args @ ''__c'')),
             (''label'', opt_val (mo_label args)),
             (''pluralLabel'', opt_val (mo_pluralLabel args)),
             (''nameField'', JObj nameField),
             (''deploymentStatus'', JStr ''Deployed''),
             (''sharingModel'', JStr (or_default (mo_sharingModel args) ''ReadWrite''))]
      in if present (mo_description args)
         then AList.update ''description'' (opt_val (mo_description args)) metadata0
         else metadata0)"

definition manageObject ::
  "platform \<Rightarrow> session \<Rightarrow> mo_args \<Rightarrow> trace \<Rightarrow> (error + response) \<times> trace" where
  "manageObject p conn args tr =
     (let call = Api conn (MetadataCall (mo_operation args) ''CustomObject''
                             (JObj (manageObject_metadata args))) in
      case metadata_reply p tr call of
        Inl e \<Rightarrow> (Inl e, tr @ [call])
      | Inr result \<Rightarrow>
          (case result_success result of
             Inl e \<Rightarrow> (Inl e, tr @ [call])
           | Inr ok \<Rightarrow>
               (Inr (text_response
                      (if truthy ok
                       then ''Successfully '' @ mo_operation args @ ''d custom object ''
                            @ mo_objectName args @ ''__c''
                       else ''Failed to '' @ mo_operation args @ '' custom object'')),
                tr @ [call])))"

subsection \<open>The handler of tools/manageObject\<close>

text \<open>\<^verbatim>\<open>objectName.replace(/__c$/, '').replace(/_/g, ' ')\<close>\<close>

definition default_label :: "string \<Rightarrow> string" where
  "default_label objectName =
     map (\<lambda>c. if c = CHR ''_'' then CHR '' '' else c)
       (if suffix ''__c'' objectName then take (length objectName - 3) objectName else objectName)"

definition tool_create_metadata :: "mo_args \<Rightarrow> jsobj" where
  "tool_create_metadata args =
     (let nameField0 =
            [(''type'', JStr (or_default (mo_nameFieldType args) ''Text'')),
             (''label'', JStr (or_default (mo_nameFieldLabel args) ''Name''))];
          nameField =
            (if mo_nameFieldType args = Some ''AutoNumber'' \<and> present (mo_nameFieldFormat args)
             then AList.update ''displayFormat'' (opt_val (mo_nameFieldFormat args)) nameField0
             else nameField0);
          m0 =
            [(''fullName'', JStr (mo_objectName args)),
             (''label'', JStr (or_default (mo_label args) (default_label (mo_objectName args)))),
             (''pluralLabel'', opt_val (mo_pluralLabel args)),
             (''nameField'', JObj nameField),
             (''deploymentStatus'', JStr ''Deployed'')];
          m1 = (if present (mo_sharingModel args)
                then AList.update ''sharingModel'' (opt_val (mo_sharingModel args)) m0 else m0)
      in if present (mo_description args)
         then AList.update ''description'' (opt_val (mo_description args)) m1 else m1)"

text \<open>
  Object spread \<^verbatim>\<open>{...v}\<close>: the own enumerable properties of \<open>v\<close>; the indexed elements of
  an array or a string; nothing for the other primitives.
\<close>

definition spread :: "jsval \<Rightarrow> jsobj" where
  "spread v =
     (case v of
        JObj kvs \<Rightarrow> kvs
      | JArr xs \<Rightarrow> map (\<lambda>(i, x). (string_of_nat i, x)) (List.enumerate 0 xs)
      | JStr s \<Rightarrow> map (\<lambda>(i, c). (string_of_nat i, JStr [c])) (List.enumerate 0 s)
      | _ \<Rightarrow> [])"

text \<open>\<^verbatim>\<open>...(x && { key: x })\<close>: the key is set when the argument is present and not empty.\<close>

definition override :: "string \<Rightarrow> string option \<Rightarrow> jsobj \<Rightarrow> jsobj" where
  "override key x obj = (if present x then AList.update key (opt_val x) obj else obj)"

text \<open>The read value of \<^verbatim>\<open>current.nameField\<close>, for a truthy \<open>current\<close>.\<close>

definition current_nameField :: "jsval \<Rightarrow> jsval" where
  "current_nameField current = (case current of JObj kvs \<Rightarrow> get_prop kvs ''nameField'' | _ \<Rightarrow> JUndefined)"

text \<open>The descriptor submitted by the update path: the current one with the overrides.\<close>

definition merge :: "jsval \<Rightarrow> mo_args \<Rightarrow> jsobj" where
  "merge current args =
     AList.update ''nameField''
       (JObj (override ''displayFormat'' (mo_nameFieldFormat args)
               (override ''type'' (mo_nameFieldType args)
                 (override ''label'' (mo_nameFieldLabel args)
                   (spread (js_or (current_nameField current) (JObj [])))))))
       (override ''sharingModel'' (mo_sharingModel args)
         (override ''description'' (mo_description args)
           (override ''pluralLabel'' (mo_pluralLabel args)
             (override ''label'' (mo_label args)
               (spread current)))))"

definition tool_response :: "string \<Rightarrow> bool \<Rightarrow> response" where
  "tool_response t err = \<lparr>content = [\<lparr>ctype = ''text'', ctext = t\<rparr>], isError = Some err\<rparr>"

text \<open>\<^verbatim>\<open>result && (Array.isArray(result) ? result[0].success : result.success)\<close>\<close>

definition tool_result_ok :: "jsval \<Rightarrow> error + bool" where
  "tool_result_ok result =
     (if \<not> truthy result then Inr False
      else (case result_success result of Inl e \<Rightarrow> Inl e | Inr v \<Rightarrow> Inr (truthy v)))"

text \<open>The \<^verbatim>\<open>catch\<close> of the handler turns every thrown error into an error response.\<close>

definition tool_caught :: "error \<Rightarrow> response" where
  "tool_caught e = tool_response (''Error managing object: '' @ message e) True"

definition manageObject_tool ::
  "platform \<Rightarrow> session \<Rightarrow> mo_args \<Rightarrow> trace \<Rightarrow> response \<times> trace" where
  "manageObject_tool p conn args tr =
     (if mo_operation args = ''create'' then
        (let call = Api conn (MetadataCall ''create'' ''CustomObject'' (JObj (tool_create_metadata args))) in
         case metadata_reply p tr call of
           Inl e \<Rightarrow> (tool_caught e, tr @ [call])
         | Inr result \<Rightarrow>
             (case tool_result_ok result of
                Inl e \<Rightarrow> (tool_caught e, tr @ [call])
              | Inr ok \<Rightarrow>
                  (if ok
                   then tool_response (''Successfully created custom object '' @ mo_objectName args) False
                   else tool_response (''Failed to create custom object '' @ mo_objectName args) True,
                   tr @ [call])))
      else
        (let rd = Api conn (MetadataRead ''CustomObject'' [mo_objectName args]) in
         case metadata_reply p tr rd of
           Inl e \<Rightarrow> (tool_caught e, tr @ [rd])
         | Inr existing \<Rightarrow>
             (let current = (case existing of JArr xs \<Rightarrow> first_elem xs | v \<Rightarrow> v) in
              if \<not> truthy current then
                (tool_response (''Custom object '' @ mo_objectName args @ '' not found'') True, tr @ [rd])
              else
                (let upd = Api conn (MetadataCall ''update'' ''CustomObject'' (JObj (merge current args))) in
                 case metadata_reply p (tr @ [rd]) upd of
                   Inl e \<Rightarrow> (tool_caught e, tr @ [rd, upd])
                 | Inr updateResult \<Rightarrow>
                     (case tool_result_ok updateResult of
                        Inl e \<Rightarrow> (tool_caught e, tr @ [rd, upd])
                      | Inr ok \<Rightarrow>
                          (if ok
                           then tool_response (''Successfully updated custom object '' @ mo_objectName args) False
                           else tool_response (''Failed to update custom object '' @ mo_objectName args) True,
                           tr @ [rd, upd]))))))"

section \<open>Field permissions\<close>

definition sq :: string where
  "sq = [CHR 0x27]"

text \<open>\<^verbatim>\<open>fieldName.endsWith('__c') ? fieldName : `${fieldName}__c`\<close>\<close>

definition fieldApiName :: "string \<Rightarrow> string" where
  "fieldApiName fieldName = (if suffix ''__c'' fieldName then fieldName else fieldName @ ''__c'')"

definition fullFieldName :: "string \<Rightarrow> string \<Rightarrow> string" where
  "fullFieldName objectName fieldName = objectName @ ''.'' @ fieldApiName fieldName"

definition profile_soql :: "string \<Rightarrow> string" where
  "profile_soql profileName = ''SELECT Id FROM Profile WHERE Name = '' @ sq @ profileName @ sq"

definition permset_soql :: "jsval \<Rightarrow> string" where
  "permset_soql profileId =
     lf @ ''        SELECT Id FROM PermissionSet '' @ lf
     @ ''        WHERE IsOwnedByProfile = true AND ProfileId = '' @ sq @ toString profileId @ sq @ lf
     @ ''      ''"

definition field_permission :: "jsval \<Rightarrow> string \<Rightarrow> string \<Rightarrow> jsobj" where
  "field_permission parentId objectName fieldName =
     [(''ParentId'', parentId),
      (''SobjectType'', JStr objectName),
      (''Field'', JStr (fullFieldName objectName fieldName)),
      (''PermissionsRead'', JBool True),
      (''PermissionsEdit'', JBool True)]"

text \<open>
  One iteration of the loop of \<^verbatim>\<open>grantFieldPermissions\<close>. The body is inside a
  \<^verbatim>\<open>try\<close> whose \<^verbatim>\<open>catch\<close> only logs, so a thrown error ends the iteration and nothing
  else; only the trace tells the outcomes apart.
\<close>

definition grant_one :: "platform \<Rightarrow> session \<Rightarrow> string \<Rightarrow> string \<Rightarrow> string \<Rightarrow> trace \<Rightarrow> trace" where
  "grant_one p conn objectName fieldName profileName tr =
     (let q1 = Api conn (Query (profile_soql profileName)) in
      case query_reply p tr q1 of
        Inl e \<Rightarrow> tr @ [q1]
      | Inr profile \<Rightarrow>
          (case profile of
             [] \<Rightarrow> tr @ [q1]
           | pr # _ \<Rightarrow>
               (let q2 = Api conn (Query (permset_soql (get_prop pr ''Id''))) in
                case query_reply p (tr @ [q1]) q2 of
                  Inl e \<Rightarrow> tr @ [q1, q2]
                | Inr permSet \<Rightarrow>
                    (case permSet of
                       [] \<Rightarrow> tr @ [q1, q2]
                     | ps # _ \<Rightarrow>
                         tr @ [q1, q2,
                               Api conn (SObjectCreateOne ''FieldPermissions''
                                 (field_permission (get_prop ps ''Id'') objectName fieldName))]))))"

text \<open>
  \<^verbatim>\<open>grantFieldPermissions\<close>: the loop over the profile names. The function has a result
  for its caller's \<^verbatim>\<open>try\<close>: thrown (\<open>Inl\<close>) or returned (\<open>Inr\<close>).
\<close>

fun grantFieldPermissions ::
  "platform \<Rightarrow> session \<Rightarrow> string \<Rightarrow> string \<Rightarrow> string list \<Rightarrow> trace \<Rightarrow> (error + unit) \<times> trace" where
  "grantFieldPermissions p conn objectName fieldName [] tr = (Inr (), tr)"
| "grantFieldPermissions p conn objectName fieldName (profileName # rest) tr =
     grantFieldPermissions p conn objectName fieldName rest
       (grant_one p conn objectName fieldName profileName tr)"

record fp_args =
  fp_operation :: string
  fp_objectName :: string
  fp_fieldName :: string
  fp_profileNames :: "string list option"
  fp_readable :: "bool option"
  fp_editable :: "bool option"

definition view_soql :: "string \<Rightarrow> string" where
  "view_soql fullName =
     lf @ ''      SELECT Parent.Profile.Name, PermissionsRead, PermissionsEdit'' @ lf
     @ ''      FROM FieldPermissions'' @ lf
     @ ''      WHERE Field = '' @ sq @ fullName @ sq @ lf
     @ ''      ORDER BY Parent.Profile.Name'' @ lf
     @ ''    ''"

text \<open>
  \<^verbatim>\<open>`${perm.Parent.Profile.Name}: Read=${perm.PermissionsRead}, Edit=${perm.PermissionsEdit}`\<close>
\<close>

definition view_line :: "jsobj \<Rightarrow> error + string" where
  "view_line perm =
     (case member (get_prop perm ''Parent'') ''Profile'' of
        Inl e \<Rightarrow> Inl e
      | Inr profile \<Rightarrow>
          (case member profile ''Name'' of
             Inl e \<Rightarrow> Inl e
           | Inr name \<Rightarrow>
               Inr (toString name @ '': Read='' @ toString (get_prop perm ''PermissionsRead'')
                    @ '', Edit='' @ toString (get_prop perm ''PermissionsEdit''))))"

text \<open>\<^verbatim>\<open>records.map(...)\<close>, stopping at the first element whose line throws.\<close>

fun view_lines :: "jsobj list \<Rightarrow> error + string list" where
  "view_lines [] = Inr []"
| "view_lines (perm # rest) =
     (case view_line perm of
        Inl e \<Rightarrow> Inl e
      | Inr l \<Rightarrow> (case view_lines rest of Inl e \<Rightarrow> Inl e | Inr ls \<Rightarrow> Inr (l # ls)))"

text \<open>
  The grant/revoke loop of \<^verbatim>\<open>manageFieldPermissions\<close>, with the \<^verbatim>\<open>results\<close> array it
  pushes to. The revoke branch holds a comment and the push, and no call.
\<close>

fun permission_loop ::
  "platform \<Rightarrow> session \<Rightarrow> fp_args \<Rightarrow> string list \<Rightarrow> string list \<Rightarrow> trace \<Rightarrow> string list \<times> trace" where
  "permission_loop p conn args [] results tr = (results, tr)"
| "permission_loop p conn args (profileName # rest) results tr =
     (if fp_operation args = ''grant'' then
        (case grantFieldPermissions p conn (fp_objectName args) (fp_fieldName args) [profileName] tr of
           (Inr u, tr') \<Rightarrow>
             permission_loop p conn args rest (results @ [''Granted to '' @ profileName]) tr'
         | (Inl error, tr') \<Rightarrow>
             permission_loop p conn args rest
               (results @ [''Failed for '' @ profileName @ '': '' @ message error]) tr')
      else if fp_operation args = ''revoke'' then
        permission_loop p conn args rest (results @ [''Revoked from '' @ profileName]) tr
      else
        permission_loop p conn args rest results tr)"

text \<open>\<^verbatim>\<open>args.profileNames || ['System Administrator']\<close>: an array, even empty, is truthy.\<close>

definition profiles_of :: "fp_args \<Rightarrow> string list" where
  "profiles_of args = (case fp_profileNames args of None \<Rightarrow> [''System Administrator''] | Some ps \<Rightarrow> ps)"

definition manageFieldPermissions ::
  "platform \<Rightarrow> session \<Rightarrow> fp_args \<Rightarrow> trace \<Rightarrow> (error + response) \<times> trace" where
  "manageFieldPermissions p conn args tr =
     (if fp_operation args = ''view'' then
        (let call = Api conn (Query (view_soql (fullFieldName (fp_objectName args) (fp_fieldName args)))) in
         case query_reply p tr call of
           Inl e \<Rightarrow> (Inl e, tr @ [call])
         | Inr records \<Rightarrow>
             (case view_lines records of
                Inl e \<Rightarrow> (Inl e, tr @ [call])
              | Inr formatted \<Rightarrow>
                  (Inr (text_response
                         (''Field permissions for '' @ fullFieldName (fp_objectName args) (fp_fieldName args)
                          @ '':'' @ bsn @ join bsn formatted)),
                   tr @ [call])))
      else
        (case permission_loop p conn args (profiles_of args) [] tr of
           (results, tr') \<Rightarrow> (Inr (text_response (join bsn results)), tr')))"

section \<open>manageField (index.ts)\<close>

record picklist_value =
  pv_label :: string
  pv_isDefault :: "bool option"

record mf_args =
  mf_operation :: string
  mf_objectName :: string
  mf_fieldName :: string
  mf_label :: "string option"
  mf_type :: "string option"
  mf_required :: "bool option"
  mf_unique :: "bool option"
  mf_externalId :: "bool option"
  mf_description :: "string option"
  mf_length :: "int option"
  mf_precision :: "int option"
  mf_scale :: "int option"
  mf_referenceTo :: "string option"
  mf_relationshipName :: "string option"
  mf_relationshipLabel :: "string option"
  mf_deleteConstraint :: "string option"
  mf_picklistValues :: "picklist_value list option"
  mf_grantAccessTo :: "string list option"

text \<open>\<^verbatim>\<open>if (args.flag) metadata.key = args.flag\<close> for a boolean and for a number.\<close>

definition set_flag :: "string \<Rightarrow> bool option \<Rightarrow> jsobj \<Rightarrow> jsobj" where
  "set_flag key x obj = (if x = Some True then AList.update key (JBool True) obj else obj)"

definition set_number :: "string \<Rightarrow> int option \<Rightarrow> jsobj \<Rightarrow> jsobj" where
  "set_number key x obj =
     (case x of None \<Rightarrow> obj | Some n \<Rightarrow> if n \<noteq> 0 then AList.update key (JNum n) obj else obj)"

definition picklist_entry :: "picklist_value \<Rightarrow> jsval" where
  "picklist_entry val =
     JObj [(''fullName'', JStr (pv_label val)),
           (''default'', JBool (pv_isDefault val = Some True)),
           (''label'', JStr (pv_label val))]"

definition manageField_metadata :: "mf_args \<Rightarrow> jsobj" where
  "manageField_metadata args =
     (let m0 = [(''fullName'', JStr (mf_objectName args @ ''.'' @ mf_fieldName args @ ''__c'')),
                (''label'', JStr (or_default (mf_label args) (mf_fieldName args))),
                (''type'', opt_val (mf_type args))];
          m1 = set_flag ''required'' (mf_required args) m0;
          m2 = set_flag ''unique'' (mf_unique args) m1;
          m3 = set_flag ''externalId'' (mf_externalId args) m2;
          m4 = override ''description'' (mf_description args) m3;
          m5 = set_number ''length'' (mf_length args) m4;
          m6 = set_number ''precision'' (mf_precision args) m5;
          m7 = (case mf_scale args of None \<Rightarrow> m6 | Some n \<Rightarrow> AList.update ''scale'' (JNum n) m6);
          m8 = (if present (mf_referenceTo args) then
                  override ''deleteConstraint'' (mf_deleteConstraint args)
                    (AList.update ''relationshipLabel''
                       (if present (mf_relationshipLabel args) then opt_val (mf_relationshipLabel args)
                        else opt_val (mf_relationshipName args))
                       (AList.update ''relationshipName'' (opt_val (mf_relationshipName args))
                          (AList.update ''referenceTo'' (opt_val (mf_referenceTo args)) m7)))
                else m7)
      in case mf_picklistValues args of
           None \<Rightarrow> m8
         | Some vals \<Rightarrow>
             AList.update ''valueSet''
               (JObj [(''valueSetDefinition'',
                       JObj [(''sorted'', JBool True), (''value'', JArr (map picklist_entry vals))])])
               m8)"

definition manageField ::
  "platform \<Rightarrow> session \<Rightarrow> mf_args \<Rightarrow> trace \<Rightarrow> (error + response) \<times> trace" where
  "manageField p conn args tr =
     (let call = Api conn (MetadataCall (mf_operation args) ''CustomField''
                             (JObj (manageField_metadata args))) in
      case metadata_reply p tr call of
        Inl e \<Rightarrow> (Inl e, tr @ [call])
      | Inr result \<Rightarrow>
          (case result_success result of
             Inl e \<Rightarrow> (Inl e, tr @ [call])
           | Inr ok \<Rightarrow>
               (let responseText =
                      (if truthy ok
                       then ''Successfully '' @ mf_operation args @ ''d field '' @ mf_fieldName args
                            @ ''__c on '' @ mf_objectName args
                       else ''Failed to '' @ mf_operation args @ '' field'')
                in case mf_grantAccessTo args of
                     None \<Rightarrow> (Inr (text_response responseText), tr @ [call])
                   | Some grantAccessTo \<Rightarrow>
                       if truthy ok \<and> mf_operation args = ''create'' then
                         (case grantFieldPermissions p conn (mf_objectName args) (mf_fieldName args)
                                 grantAccessTo (tr @ [call]) of
                            (Inl e, tr') \<Rightarrow> (Inl e, tr')
                          | (Inr u, tr') \<Rightarrow>
                              (Inr (text_response
                                     (responseText @ bsn @ ''Field Level Security granted to: ''
                                      @ join '', '' grantAccessTo)),
                               tr'))
                       else (Inr (text_response responseText), tr @ [call]))))"

section \<open>executeAnonymous\<close>

definition executeAnonymous_text :: "exec_result \<Rightarrow> string" where
  "executeAnonymous_text r =
     (let t0 = ''Compilation: '' @ (if compiled r then ''Success'' else ''Failed'') @ bsn in
      if \<not> compiled r then
        t0 @ ''Error at line '' @ string_of_int (line r) @ '', column '' @ string_of_int (column r)
           @ '': '' @ nullable_str (compileProblem r)
      else if success r then
        t0 @ ''Execution: Success''
      else
        (let t1 = t0 @ ''Execution: Failed'' @ bsn @ nullable_str (exceptionMessage r) in
         if present (exceptionStackTrace r)
         then t1 @ bsn @ bsn @ ''Stack trace:'' @ bsn @ nullable_str (exceptionStackTrace r)
         else t1))"

definition executeAnonymous ::
  "platform \<Rightarrow> session \<Rightarrow> string \<Rightarrow> trace \<Rightarrow> (error + response) \<times> trace" where
  "executeAnonymous p conn apexCode tr =
     (let call = Api conn (ToolingExecuteAnonymous apexCode) in
      case exec_reply p tr call of
        Inl e \<Rightarrow> (Inl e, tr @ [call])
      | Inr r \<Rightarrow> (Inr (text_response (executeAnonymous_text r)), tr @ [call]))"

section \<open>handleToolCall\<close>

text \<open>
  A tool call, by the tool's name, with the arguments narrowed to the shape the tool's
  schema declares. Six of the fifteen tools are embedded; \<open>unknown_tool\<close> stands for a
  name outside the fifteen, which reaches the \<^verbatim>\<open>default\<close> branch of the \<^verbatim>\<open>switch\<close>.
\<close>

datatype tool_call =
    salesforce_aggregate_query agg_args
  | salesforce_dml_records dml_args
  | salesforce_manage_object mo_args
  | salesforce_manage_field mf_args
  | salesforce_manage_field_permissions fp_args
  | salesforce_execute_anonymous string
  | unknown_tool string

fun dispatch :: "platform \<Rightarrow> session \<Rightarrow> tool_call \<Rightarrow> trace \<Rightarrow> (error + response) \<times> trace" where
  "dispatch p conn (salesforce_aggregate_query args) tr = aggregateQuery p conn args tr"
| "dispatch p conn (salesforce_dml_records args) tr = dmlRecords p conn args tr"
| "dispatch p conn (salesforce_manage_object args) tr = manageObject p conn args tr"
| "dispatch p conn (salesforce_manage_field args) tr = manageField p conn args tr"
| "dispatch p conn (salesforce_manage_field_permissions args) tr = manageFieldPermissions p conn args tr"
| "dispatch p conn (salesforce_execute_anonymous apexCode) tr = executeAnonymous p conn apexCode tr"
| "dispatch p conn (unknown_tool name) tr = (Inl (Error (''Unknown tool: '' @ name)), tr)"

text \<open>
  \<^verbatim>\<open>handleToolCall\<close>: the session is acquired first, inside the \<^verbatim>\<open>try\<close>; then the handler
  runs; whatever is thrown by either becomes an error response. The handler is raced
  against a timer (\<^verbatim>\<open>executeWithTimeout\<close>); as for the session, the model covers the runs
  that settle before the deadline.
\<close>

definition handleToolCall ::
  "platform \<Rightarrow> ExtensionConfig \<Rightarrow> tool_call \<Rightarrow> trace \<Rightarrow> response \<times> trace" where
  "handleToolCall p config call tr =
     (case createSalesforceConnection p config tr of
        (Inl e, tr') \<Rightarrow> (error_response e, tr')
      | (Inr conn, tr') \<Rightarrow>
          (case dispatch p conn call tr' of
             (Inl e, tr'') \<Rightarrow> (error_response e, tr'')
           | (Inr r, tr'') \<Rightarrow> (r, tr'')))"

section \<open>Outcome labels and test doubles\<close>

text \<open>
  The three labels a rendered \<^verbatim>\<open>executeAnonymous\<close> result can carry, read off the start
  of the text, where no platform-supplied string has been inserted yet.
\<close>

definition compile_failure_label :: "string \<Rightarrow> bool" where
  "compile_failure_label t = prefix (''Compilation: Failed'' @ bsn @ ''Error at line '') t"

definition runtime_failure_label :: "string \<Rightarrow> bool" where
  "runtime_failure_label t = prefix (''Compilation: Success'' @ bsn @ ''Execution: Failed'' @ bsn) t"

definition success_label :: "string \<Rightarrow> bool" where
  "success_label t = (t = ''Compilation: Success'' @ bsn @ ''Execution: Success'')"

text \<open>A platform that answers every call with an empty success, for concrete runs.\<close>

definition stub_exec :: exec_result where
  "stub_exec = \<lparr>compiled = True, success = True, line = -1, column = -1,
                 compileProblem = None, exceptionMessage = None, exceptionStackTrace = None\<rparr>"

definition stub_platform :: platform where
  "stub_platform =
     \<lparr>token_reply = (\<lambda>tr c. HttpResponse 200 ''{}''),
      login_reply = (\<lambda>tr c. Inr (''https://na1.salesforce.com'', ''SESSION'')),
      query_reply = (\<lambda>tr c. Inr []),
      dml_reply = (\<lambda>tr c. Inr (ResultArray [])),
      metadata_reply = (\<lambda>tr c. Inr (JObj [(''success'', JBool True)])),
      exec_reply = (\<lambda>tr c. Inr stub_exec),
      JSON_parse = (\<lambda>s. Inr (JObj [])),
      URL_ok = (\<lambda>u. True),
      parseInt = (\<lambda>s. Some 30000)\<rparr>"

definition stub_conn :: session where
  "stub_conn = \<lparr>instanceUrl = JStr ''https://na1.salesforce.com'', accessToken = JStr ''SESSION'',
                 version = Some ''58.0''\<rparr>"

text \<open>Three results of anonymous execution: two runtime failures and a compile failure.\<close>

definition division_by_zero :: exec_result where
  "division_by_zero = stub_exec\<lparr>success := False, exceptionMessage := Some ''Division by zero''\<rparr>"

definition null_pointer :: exec_result where
  "null_pointer =
     stub_exec\<lparr>success := False,
                exceptionMessage := Some ''Attempt to de-reference a null object'',
                exceptionStackTrace := Some ''AnonymousBlock: line 1, column 1''\<rparr>"

definition missing_semicolon :: exec_result where
  "missing_semicolon =
     stub_exec\<lparr>compiled := False, success := False, line := 3, column := 14,
                compileProblem := Some ''Unexpected token <EOF>''\<rparr>"

text \<open>Records, raw results and argument records for concrete DML runs.\<close>

definition two_records :: "jsobj list" where
  "two_records = [[(''Id'', JStr ''001A''), (''Name'', JStr ''Acme'')],
                  [(''Id'', JStr ''001B''), (''Name'', JStr '''')]]"

definition mixed_results :: "save_result list" where
  "mixed_results =
     [\<lparr>sr_success = True, sr_id = Some ''001A'', sr_errors = Some (ErrorList [])\<rparr>,
      \<lparr>sr_success = False, sr_id = None,
       sr_errors = Some (ErrorList [[(''message'', JStr ''Required fields are missing'')]])\<rparr>]"

definition locked_result :: save_result where
  "locked_result =
     \<lparr>sr_success = False, sr_id = Some ''001A'',
      sr_errors = Some (ErrorList [[(''message'', JStr ''entity is locked'')]])\<rparr>"

definition saved_results :: "save_result list" where
  "saved_results =
     [\<lparr>sr_success = True, sr_id = Some ''001A'', sr_errors = Some (ErrorList [])\<rparr>,
      \<lparr>sr_success = True, sr_id = Some ''001B'', sr_errors = Some (ErrorList [])\<rparr>]"

definition dml_call :: "string \<Rightarrow> jsobj list \<Rightarrow> string option \<Rightarrow> dml_args" where
  "dml_call operation records key =
     \<lparr>dml_operation = operation, dml_objectName = ''Account'', dml_records = records,
      dml_externalIdField = key\<rparr>"

text \<open>
  A platform on which the profile query for profile \<open>A\<close> throws and every other query
  returns one row.
\<close>

definition flaky_platform :: platform where
  "flaky_platform =
     stub_platform\<lparr>query_reply :=
       (\<lambda>tr c. if c = Api stub_conn (Query (profile_soql ''A''))
               then Inl (Error ''INVALID_SESSION_ID'')
               else Inr [[(''Id'', JStr ''00e1'')]])\<rparr>"

definition grant_AB :: fp_args where
  "grant_AB = \<lparr>fp_operation = ''grant'', fp_objectName = ''Account'', fp_fieldName = ''Rating'',
                fp_profileNames = Some [''A'', ''B''], fp_readable = None, fp_editable = None\<rparr>"

definition revoke_two :: fp_args where
  "revoke_two = \<lparr>fp_operation = ''revoke'', fp_objectName = ''Account'', fp_fieldName = ''Rating'',
                  fp_profileNames = Some [''Sales'', ''Support''], fp_readable = None, fp_editable = None\<rparr>"

definition grant_default :: fp_args where
  "grant_default = \<lparr>fp_operation = ''grant'', fp_objectName = ''Account'', fp_fieldName = ''Rating'',
                     fp_profileNames = None, fp_readable = None, fp_editable = None\<rparr>"

text \<open>
  The value of \<^verbatim>\<open>body.key\<close> for a parsed token response that is not \<^verbatim>\<open>null\<close>: the
  property of an object, \<^verbatim>\<open>undefined\<close> for any other JSON value.
\<close>

definition field_of :: "jsval \<Rightarrow> string \<Rightarrow> jsval" where
  "field_of body k = (case body of JObj kvs \<Rightarrow> get_prop kvs k | _ \<Rightarrow> JUndefined)"

text \<open>Configurations and token endpoints for concrete runs.\<close>

definition password_config :: ExtensionConfig where
  "password_config =
     \<lparr>connectionType = ''User_Password'', cfg_instanceUrl = ''https://login.salesforce.com'',
      username = Some ''dev@example.com'', password = Some ''hunter2'', securityToken = None,
      clientId = None, clientSecret = None, apiVersion = ''58.0'', timeout = Some 30000,
      logLevel = ''info''\<rparr>"

definition oauth_config :: ExtensionConfig where
  "oauth_config =
     \<lparr>connectionType = ''OAuth_2.0_Client_Credentials'',
      cfg_instanceUrl = ''https://acme.my.salesforce.com'',
      username = None, password = None, securityToken = None,
      clientId = Some ''3MVG9'', clientSecret = Some ''s3cret'', apiVersion = ''58.0'',
      timeout = Some 30000, logLevel = ''info''\<rparr>"

definition token_body :: jsobj where
  "token_body = [(''access_token'', JStr ''00Dxx!AQ4'' ),
                 (''instance_url'', JStr ''https://acme.my.salesforce.com''),
                 (''token_type'', JStr ''Bearer'')]"

definition rejection_body :: jsobj where
  "rejection_body = [(''error'', JStr ''invalid_client''),
                     (''error_description'', JStr ''invalid client credentials'')]"

definition granting_platform :: platform where
  "granting_platform =
     stub_platform\<lparr>token_reply := (\<lambda>tr c. HttpResponse 200 ''token''),
                    JSON_parse := (\<lambda>s. Inr (JObj token_body))\<rparr>"

definition rejecting_platform :: platform where
  "rejecting_platform =
     stub_platform\<lparr>token_reply := (\<lambda>tr c. HttpResponse 400 ''rejection''),
                    JSON_parse := (\<lambda>s. Inr (JObj rejection_body))\<rparr>"

definition upsert_without_key :: dml_args where
  "upsert_without_key =
     \<lparr>dml_operation = ''upsert'', dml_objectName = ''Account'',
      dml_records = [[(''Name'', JStr ''Acme'')]], dml_externalIdField = None\<rparr>"

text \<open>An aggregate query whose one group sums to zero.\<close>

definition sum_by_stage :: agg_args where
  "sum_by_stage =
     \<lparr>agg_objectName = ''Opportunity'', agg_selectFields = [''StageName'', ''SUM(Amount) total''],
      agg_groupByFields = [''StageName''], agg_whereClause = None, agg_havingClause = None,
      agg_orderBy = None, agg_limit = None\<rparr>"

definition zero_group :: jsobj where
  "zero_group = [(''StageName'', JStr ''Prospecting''), (''total'', JNum 0)]"

definition zero_platform :: platform where
  "zero_platform = stub_platform\<lparr>query_reply := (\<lambda>tr c. Inr [zero_group])\<rparr>"

text \<open>
  A platform that stores one custom object, private and described, and answers a
  metadata read with it.
\<close>

definition stored_invoice :: jsobj where
  "stored_invoice =
     [(''fullName'', JStr ''Invoice__c''),
      (''label'', JStr ''Invoice''),
      (''pluralLabel'', JStr ''Invoices''),
      (''description'', JStr ''Customer invoices''),
      (''nameField'', JObj [(''label'', JStr ''Invoice Number''), (''type'', JStr ''AutoNumber''),
                           (''displayFormat'', JStr ''INV-{0000}'')]),
      (''deploymentStatus'', JStr ''Deployed''),
      (''sharingModel'', JStr ''Private'')]"

definition stored_platform :: platform where
  "stored_platform =
     stub_platform\<lparr>metadata_reply :=
       (\<lambda>tr c. case c of
                  Api s (MetadataRead t names) \<Rightarrow> Inr (JArr [JObj stored_invoice])
                | _ \<Rightarrow> Inr (JObj [(''success'', JBool True)]))\<rparr>"

definition relabel_invoice :: "string \<Rightarrow> mo_args" where
  "relabel_invoice name =
     \<lparr>mo_operation = ''update'', mo_objectName = name, mo_label = Some ''Bill'',
      mo_pluralLabel = None, mo_description = None, mo_nameFieldLabel = None,
      mo_nameFieldType = None, mo_nameFieldFormat = None, mo_sharingModel = None\<rparr>"

section \<open>executeAnonymous: the three outcomes\<close>

lemma executeAnonymous_labels:
  "compile_failure_label (executeAnonymous_text r) = (\<not> compiled r)"
  "success_label (executeAnonymous_text r) = (compiled r \<and> success r)"
  "runtime_failure_label (executeAnonymous_text r) = (compiled r \<and> \<not> success r)"
  by (auto simp: compile_failure_label_def success_label_def runtime_failure_label_def
      executeAnonymous_text_def Let_def bsn_def)

lemma runtime_failure_contains:
  assumes "compiled r" "\<not> success r"
  shows "sublist ''Execution: Failed'' (executeAnonymous_text r)"
    and "sublist (nullable_str (exceptionMessage r)) (executeAnonymous_text r)"
proof -
  let ?m = "nullable_str (exceptionMessage r)"
  obtain ss where t: "executeAnonymous_text r = (''Compilation: Success'' @ bsn) @ ''Execution: Failed'' @ (bsn @ ?m @ ss)"
    and t2: "executeAnonymous_text r = (''Compilation: Success'' @ bsn @ ''Execution: Failed'' @ bsn) @ ?m @ ss"
    using assms by (cases "present (exceptionStackTrace r)") (auto simp: executeAnonymous_text_def Let_def)
  show "sublist ''Execution: Failed'' (executeAnonymous_text r)"
    unfolding sublist_def using t by blast
  show "sublist ?m (executeAnonymous_text r)"
    unfolding sublist_def using t2 by blast
qed

lemma executeAnonymous_text_cases:
  "\<not> compiled r \<Longrightarrow>
     executeAnonymous_text r
       = ''Compilation: Failed'' @ bsn @ ''Error at line '' @ string_of_int (line r) @ '', column ''
         @ string_of_int (column r) @ '': ''
         @ (case compileProblem r of None \<Rightarrow> ''null'' | Some m \<Rightarrow> m)"
  "compiled r \<Longrightarrow> success r \<Longrightarrow>
     executeAnonymous_text r = ''Compilation: Success'' @ bsn @ ''Execution: Success''"
  "compiled r \<Longrightarrow> \<not> success r \<Longrightarrow> exceptionStackTrace r = Some s \<Longrightarrow> s \<noteq> [] \<Longrightarrow>
     executeAnonymous_text r
       = ''Compilation: Success'' @ bsn @ ''Execution: Failed'' @ bsn
         @ (case exceptionMessage r of None \<Rightarrow> ''null'' | Some m \<Rightarrow> m)
         @ bsn @ bsn @ ''Stack trace:'' @ bsn @ s"
  "compiled r \<Longrightarrow> \<not> success r \<Longrightarrow> exceptionStackTrace r = None \<or> exceptionStackTrace r = Some [] \<Longrightarrow>
     executeAnonymous_text r
       = ''Compilation: Success'' @ bsn @ ''Execution: Failed'' @ bsn
         @ (case exceptionMessage r of None \<Rightarrow> ''null'' | Some m \<Rightarrow> m)"
  by (auto simp: executeAnonymous_text_def Let_def present_def nullable_str_def split: option.splits)

text \<open>
  Claim C8. Whenever the platform answers an \<^verbatim>\<open>executeAnonymous\<close> call with a result \<open>r\<close>,
  the handler returns one text \<open>t\<close> in a response that sets no \<open>isError\<close> flag, after
  the one call, and \<open>t\<close> is, in full:
  \<^item> when \<open>r\<close> did not compile, the compile failure with the line, the column and the
    problem of \<open>r\<close>;
  \<^item> when \<open>r\<close> compiled and succeeded, the success text;
  \<^item> when \<open>r\<close> compiled and did not succeed, the runtime failure with the exception
    message of \<open>r\<close>, followed by the stack trace of \<open>r\<close> exactly when there is a
    non-empty one.
  The three outcomes exclude each other and \<open>t\<close> carries the label of exactly one of
  them. For \<open>compiled\<close> true and \<open>success\<close> false, \<open>t\<close> contains
  \<open>Execution: Failed\<close> and the exception message.
\<close>

theorem executeAnonymous_outcome:
  assumes "exec_reply p tr (Api conn (ToolingExecuteAnonymous apexCode)) = Inr r"
  shows "\<exists>t. executeAnonymous p conn apexCode tr
               = (Inr \<lparr>content = [\<lparr>ctype = ''text'', ctext = t\<rparr>], isError = None\<rparr>,
                  tr @ [Api conn (ToolingExecuteAnonymous apexCode)])
          \<and> (\<not> compiled r \<longrightarrow>
                t = ''Compilation: Failed'' @ bsn @ ''Error at line '' @ string_of_int (line r)
                    @ '', column '' @ string_of_int (column r) @ '': ''
                    @ (case compileProblem r of None \<Rightarrow> ''null'' | Some m \<Rightarrow> m))
          \<and> (compiled r \<and> success r \<longrightarrow>
                t = ''Compilation: Success'' @ bsn @ ''Execution: Success'')
          \<and> (compiled r \<and> \<not> success r \<longrightarrow>
                (\<forall>s. exceptionStackTrace r = Some s \<and> s \<noteq> [] \<longrightarrow>
                   t = ''Compilation: Success'' @ bsn @ ''Execution: Failed'' @ bsn
                       @ (case exceptionMessage r of None \<Rightarrow> ''null'' | Some m \<Rightarrow> m)
                       @ bsn @ bsn @ ''Stack trace:'' @ bsn @ s)
              \<and> (exceptionStackTrace r = None \<or> exceptionStackTrace r = Some [] \<longrightarrow>
                   t = ''Compilation: Success'' @ bsn @ ''Execution: Failed'' @ bsn
                       @ (case exceptionMessage r of None \<Rightarrow> ''null'' | Some m \<Rightarrow> m))
              \<and> sublist ''Execution: Failed'' t
              \<and> sublist (case exceptionMessage r of None \<Rightarrow> ''null'' | Some m \<Rightarrow> m) t)
          \<and> compile_failure_label t = (\<not> compiled r)
          \<and> runtime_failure_label t = (compiled r \<and> \<not> success r)
          \<and> success_label t = (compiled r \<and> success r)"
proof -
  have m: "nullable_str (exceptionMessage r) = (case exceptionMessage r of None \<Rightarrow> ''null'' | Some m \<Rightarrow> m)"
    by (simp add: nullable_str_def)
  have e: "executeAnonymous p conn apexCode tr
             = (Inr \<lparr>content = [\<lparr>ctype = ''text'', ctext = executeAnonymous_text r\<rparr>], isError = None\<rparr>,
                tr @ [Api conn (ToolingExecuteAnonymous apexCode)])"
    using assms by (simp add: executeAnonymous_def text_response_def)
  show ?thesis
    apply (rule exI [of _ "executeAnonymous_text r"])
    using e executeAnonymous_labels [of r] runtime_failure_contains [of r]
      executeAnonymous_text_cases [of r] m
    by auto
qed

theorem executeAnonymous_outcome_witness:
  "bsn = [CHR 0x5C, CHR ''n'']
   \<and> executeAnonymous (stub_platform\<lparr>exec_reply := \<lambda>tr c. Inr division_by_zero\<rparr>)
        stub_conn ''Integer x = 1/0;'' []
     = (Inr \<lparr>content = [\<lparr>ctype = ''text'',
                ctext = ''Compilation: Success'' @ bsn @ ''Execution: Failed'' @ bsn @ ''Division by zero''\<rparr>],
              isError = None\<rparr>,
        [Api stub_conn (ToolingExecuteAnonymous ''Integer x = 1/0;'')])
   \<and> executeAnonymous (stub_platform\<lparr>exec_reply := \<lambda>tr c. Inr null_pointer\<rparr>)
        stub_conn ''Account a; a.Name.length();'' []
     = (Inr \<lparr>content = [\<lparr>ctype = ''text'',
                ctext = ''Compilation: Success'' @ bsn @ ''Execution: Failed'' @ bsn
                        @ ''Attempt to de-reference a null object'' @ bsn @ bsn @ ''Stack trace:'' @ bsn
                        @ ''AnonymousBlock: line 1, column 1''\<rparr>],
              isError = None\<rparr>,
        [Api stub_conn (ToolingExecuteAnonymous ''Account a; a.Name.length();'')])
   \<and> executeAnonymous (stub_platform\<lparr>exec_reply := \<lambda>tr c. Inr missing_semicolon\<rparr>)
        stub_conn ''Integer x = 1'' []
     = (Inr \<lparr>content = [\<lparr>ctype = ''text'',
                ctext = ''Compilation: Failed'' @ bsn
                        @ ''Error at line 3, column 14: Unexpected token <EOF>''\<rparr>],
              isError = None\<rparr>,
        [Api stub_conn (ToolingExecuteAnonymous ''Integer x = 1'')])
   \<and> executeAnonymous stub_platform stub_conn ''Integer x = 1;'' []
     = (Inr \<lparr>content = [\<lparr>ctype = ''text'',
                ctext = ''Compilation: Success'' @ bsn @ ''Execution: Success''\<rparr>],
              isError = None\<rparr>,
        [Api stub_conn (ToolingExecuteAnonymous ''Integer x = 1;'')])"
proof -
  let ?d = "stub_platform\<lparr>exec_reply := \<lambda>tr c. Inr division_by_zero\<rparr>"
  let ?n = "stub_platform\<lparr>exec_reply := \<lambda>tr c. Inr null_pointer\<rparr>"
  let ?m = "stub_platform\<lparr>exec_reply := \<lambda>tr c. Inr missing_semicolon\<rparr>"
  have hd: "exec_reply ?d [] (Api stub_conn (ToolingExecuteAnonymous ''Integer x = 1/0;'')) = Inr division_by_zero"
    and hn: "exec_reply ?n [] (Api stub_conn (ToolingExecuteAnonymous ''Account a; a.Name.length();'')) = Inr null_pointer"
    and hm: "exec_reply ?m [] (Api stub_conn (ToolingExecuteAnonymous ''Integer x = 1'')) = Inr missing_semicolon"
    and hs: "exec_reply stub_platform [] (Api stub_conn (ToolingExecuteAnonymous ''Integer x = 1;'')) = Inr stub_exec"
    by (simp_all add: stub_platform_def)
  have n: "string_of_int 3 = ''3''" "string_of_int 14 = ''14''"
    by code_simp+
  have 1: "executeAnonymous ?d stub_conn ''Integer x = 1/0;'' []
     = (Inr \<lparr>content = [\<lparr>ctype = ''text'',
                ctext = ''Compilation: Success'' @ bsn @ ''Execution: Failed'' @ bsn @ ''Division by zero''\<rparr>],
              isError = None\<rparr>,
        [Api stub_conn (ToolingExecuteAnonymous ''Integer x = 1/0;'')])"
    using executeAnonymous_outcome [OF hd] by (auto simp: division_by_zero_def stub_exec_def)
  have 2: "executeAnonymous ?n stub_conn ''Account a; a.Name.length();'' []
     = (Inr \<lparr>content = [\<lparr>ctype = ''text'',
                ctext = ''Compilation: Success'' @ bsn @ ''Execution: Failed'' @ bsn
                        @ ''Attempt to de-reference a null object'' @ bsn @ bsn @ ''Stack trace:'' @ bsn
                        @ ''AnonymousBlock: line 1, column 1''\<rparr>],
              isError = None\<rparr>,
        [Api stub_conn (ToolingExecuteAnonymous ''Account a; a.Name.length();'')])"
    using executeAnonymous_outcome [OF hn] by (auto simp: null_pointer_def stub_exec_def)
  have 3: "executeAnonymous ?m stub_conn ''Integer x = 1'' []
     = (Inr \<lparr>content = [\<lparr>ctype = ''text'',
                ctext = ''Compilation: Failed'' @ bsn
                        @ ''Error at line 3, column 14: Unexpected token <EOF>''\<rparr>],
              isError = None\<rparr>,
        [Api stub_conn (ToolingExecuteAnonymous ''Integer x = 1'')])"
    using executeAnonymous_outcome [OF hm] by (auto simp: missing_semicolon_def stub_exec_def n)
  have 4: "executeAnonymous stub_platform stub_conn ''Integer x = 1;'' []
     = (Inr \<lparr>content = [\<lparr>ctype = ''text'',
                ctext = ''Compilation: Success'' @ bsn @ ''Execution: Success''\<rparr>],
              isError = None\<rparr>,
        [Api stub_conn (ToolingExecuteAnonymous ''Integer x = 1;'')])"
    using executeAnonymous_outcome [OF hs] by (auto simp: stub_exec_def)
  show ?thesis
    using 1 2 3 4 by (simp add: bsn_def)
qed

section \<open>dmlRecords: the counts of the report\<close>

lemma dml_report_shape:
  "\<exists>tail. dml_report operation rs =
            toUpperCase operation @ '' completed: ''
            @ string_of_nat (length rs - length (filter (\<lambda>r. \<not> sr_success r) rs)) @ '' successful, ''
            @ string_of_nat (length (filter (\<lambda>r. \<not> sr_success r) rs)) @ '' failed'' @ tail
          \<and> (length (filter (\<lambda>r. \<not> sr_success r) rs) = 0 \<longrightarrow> tail = [])"
proof -
  have c: "length (filter sr_success rs) + length (filter (\<lambda>r. \<not> sr_success r) rs) = length rs"
    by (rule sum_length_filter_compl)
  then have s: "length (filter sr_success rs) = length rs - length (filter (\<lambda>r. \<not> sr_success r) rs)"
    and f: "length rs - length (filter sr_success rs) = length (filter (\<lambda>r. \<not> sr_success r) rs)"
    by simp_all
  show ?thesis
    unfolding dml_report_def Let_def f unfolding s
    by (cases "length (filter (\<lambda>r. \<not> sr_success r) rs) = 0") simp_all
qed

lemma dmlRecords_issues:
  assumes "(dml_operation args = ''insert''
              \<and> c = SObjectCreate (dml_objectName args) (dml_records args))
         \<or> (dml_operation args = ''update''
              \<and> c = SObjectUpdate (dml_objectName args) (dml_records args))
         \<or> (dml_operation args = ''delete''
              \<and> c = SObjectDestroy (dml_objectName args) (map (\<lambda>r. get_prop r ''Id'') (dml_records args)))
         \<or> (dml_operation args = ''upsert'' \<and> dml_externalIdField args = Some key \<and> key \<noteq> []
              \<and> c = SObjectUpsert (dml_objectName args) (dml_records args) key)"
  shows "dmlRecords p conn args tr = dml_issue p conn (dml_operation args) c tr"
  using assms by (auto simp: dmlRecords_def present_def or_default_def)

text \<open>
  Claim C9. For each of the four operations (upsert with its external id field), the
  handler issues the one call \<open>c\<close> that submits the records (for delete, their
  identifiers), and for every raw result the platform returns for it, an array \<open>rs\<close> of
  entries or a single entry \<open>r\<close>, it returns a report that is not an error and
  whose text starts with the counts: the failure count printed is the number of entries
  whose \<open>success\<close> is false, the success count printed is the number of the remaining
  entries, and nothing follows the counts when no entry failed. The two counts add up to
  the number of entries; a bulk result has one entry per submitted record, and then they
  add up to the number of submitted records, which for delete is the number of
  submitted identifiers.
\<close>

theorem dmlRecords_counts:
  assumes "(dml_operation args = ''insert''
              \<and> c = SObjectCreate (dml_objectName args) (dml_records args))
         \<or> (dml_operation args = ''update''
              \<and> c = SObjectUpdate (dml_objectName args) (dml_records args))
         \<or> (dml_operation args = ''delete''
              \<and> c = SObjectDestroy (dml_objectName args) ids
              \<and> ids = map (\<lambda>r. get_prop r ''Id'') (dml_records args))
         \<or> (dml_operation args = ''upsert'' \<and> dml_externalIdField args = Some key \<and> key \<noteq> []
              \<and> c = SObjectUpsert (dml_objectName args) (dml_records args) key)"
    and "dml_reply p tr (Api conn c) = Inr result"
    and "result = ResultArray rs \<or> (result = ResultOne r \<and> rs = [r])"
  shows "\<exists>tail.
           dmlRecords p conn args tr
             = (Inr \<lparr>content =
                       [\<lparr>ctype = ''text'',
                         ctext = toUpperCase (dml_operation args) @ '' completed: ''
                                 @ string_of_nat (length rs - length (filter (\<lambda>e. \<not> sr_success e) rs))
                                 @ '' successful, ''
                                 @ string_of_nat (length (filter (\<lambda>e. \<not> sr_success e) rs))
                                 @ '' failed'' @ tail\<rparr>],
                     isError = None\<rparr>,
                tr @ [Api conn c])
         \<and> (length (filter (\<lambda>e. \<not> sr_success e) rs) = 0 \<longrightarrow> tail = [])
         \<and> length rs - length (filter (\<lambda>e. \<not> sr_success e) rs) = length (filter sr_success rs)
         \<and> (length rs - length (filter (\<lambda>e. \<not> sr_success e) rs))
             + length (filter (\<lambda>e. \<not> sr_success e) rs) = length rs
         \<and> (length rs = length (dml_records args) \<longrightarrow>
              (length rs - length (filter (\<lambda>e. \<not> sr_success e) rs))
              + length (filter (\<lambda>e. \<not> sr_success e) rs) = length (dml_records args))
         \<and> (dml_operation args = ''delete'' \<longrightarrow> length ids = length (dml_records args))"
proof -
  have i: "dmlRecords p conn args tr = dml_issue p conn (dml_operation args) c tr"
    using assms(1) by (intro dmlRecords_issues) auto
  have rs: "results_of result = rs"
    using assms(3) by (auto simp: results_of_def)
  have d: "dml_operation args = ''delete'' \<longrightarrow> length ids = length (dml_records args)"
    using assms(1) by auto
  have c: "length (filter sr_success rs) + length (filter (\<lambda>e. \<not> sr_success e) rs) = length rs"
    by (rule sum_length_filter_compl)
  obtain tail where t: "dml_report (dml_operation args) rs =
            toUpperCase (dml_operation args) @ '' completed: ''
            @ string_of_nat (length rs - length (filter (\<lambda>r. \<not> sr_success r) rs)) @ '' successful, ''
            @ string_of_nat (length (filter (\<lambda>r. \<not> sr_success r) rs)) @ '' failed'' @ tail"
    and e: "length (filter (\<lambda>r. \<not> sr_success r) rs) = 0 \<longrightarrow> tail = []"
    using dml_report_shape [of "dml_operation args" rs] by blast
  have "dmlRecords p conn args tr
          = (Inr \<lparr>content = [\<lparr>ctype = ''text'', ctext = dml_report (dml_operation args) rs\<rparr>],
                  isError = None\<rparr>,
             tr @ [Api conn c])"
    using i assms(2) rs by (simp add: dml_issue_def text_response_def)
  then show ?thesis
    apply (intro exI [of _ tail])
    using t e d c by simp
qed

theorem dmlRecords_counts_witness:
  "(\<exists>tail. dmlRecords (stub_platform\<lparr>dml_reply := \<lambda>tr c. Inr (ResultArray mixed_results)\<rparr>) stub_conn
             (dml_call ''insert'' two_records None) []
           = (Inr \<lparr>content = [\<lparr>ctype = ''text'',
                                ctext = ''INSERT completed: 1 successful, 1 failed'' @ tail\<rparr>],
                   isError = None\<rparr>,
              [Api stub_conn (SObjectCreate ''Account'' two_records)]))
   \<and> (\<exists>tail. dmlRecords (stub_platform\<lparr>dml_reply := \<lambda>tr c. Inr (ResultOne locked_result)\<rparr>) stub_conn
             (dml_call ''delete'' [hd two_records] None) []
           = (Inr \<lparr>content = [\<lparr>ctype = ''text'',
                                ctext = ''DELETE completed: 0 successful, 1 failed'' @ tail\<rparr>],
                   isError = None\<rparr>,
              [Api stub_conn (SObjectDestroy ''Account'' [JStr ''001A''])]))
   \<and> dmlRecords (stub_platform\<lparr>dml_reply := \<lambda>tr c. Inr (ResultArray saved_results)\<rparr>) stub_conn
        (dml_call ''update'' two_records None) []
       = (Inr \<lparr>content = [\<lparr>ctype = ''text'', ctext = ''UPDATE completed: 2 successful, 0 failed''\<rparr>],
               isError = None\<rparr>,
          [Api stub_conn (SObjectUpdate ''Account'' two_records)])
   \<and> dmlRecords (stub_platform\<lparr>dml_reply := \<lambda>tr c. Inr (ResultArray saved_results)\<rparr>) stub_conn
        (dml_call ''upsert'' two_records (Some ''Ext__c'')) []
       = (Inr \<lparr>content = [\<lparr>ctype = ''text'', ctext = ''UPSERT completed: 2 successful, 0 failed''\<rparr>],
               isError = None\<rparr>,
          [Api stub_conn (SObjectUpsert ''Account'' two_records ''Ext__c'')])"
proof -
  let ?pm = "stub_platform\<lparr>dml_reply := \<lambda>tr c. Inr (ResultArray mixed_results)\<rparr>"
  let ?pl = "stub_platform\<lparr>dml_reply := \<lambda>tr c. Inr (ResultOne locked_result)\<rparr>"
  let ?ps = "stub_platform\<lparr>dml_reply := \<lambda>tr c. Inr (ResultArray saved_results)\<rparr>"
  have u: "toUpperCase ''insert'' = ''INSERT''" "toUpperCase ''delete'' = ''DELETE''"
    "toUpperCase ''update'' = ''UPDATE''" "toUpperCase ''upsert'' = ''UPSERT''"
    by code_simp+
  have n: "string_of_nat 0 = ''0''" "string_of_nat 1 = ''1''" "string_of_nat 2 = ''2''"
    "string_of_nat (Suc 0) = ''1''"
    by code_simp+
  have k: "length (filter (\<lambda>e. \<not> sr_success e) mixed_results) = 1" "length mixed_results = 2"
    "length (filter (\<lambda>e. \<not> sr_success e) [locked_result]) = 1"
    "length (filter (\<lambda>e. \<not> sr_success e) saved_results) = 0" "length saved_results = 2"
    by (simp_all add: mixed_results_def locked_result_def saved_results_def)
  have 1: "\<exists>tail. dmlRecords ?pm stub_conn (dml_call ''insert'' two_records None) []
           = (Inr \<lparr>content = [\<lparr>ctype = ''text'',
                                ctext = ''INSERT completed: 1 successful, 1 failed'' @ tail\<rparr>],
                   isError = None\<rparr>,
              [Api stub_conn (SObjectCreate ''Account'' two_records)])"
    using dmlRecords_counts [of "dml_call ''insert'' two_records None"
        "SObjectCreate ''Account'' two_records" "[]" "[]" ?pm "[]" stub_conn
        "ResultArray mixed_results" mixed_results]
    by (simp add: dml_call_def u n k)
  have 2: "\<exists>tail. dmlRecords ?pl stub_conn (dml_call ''delete'' [hd two_records] None) []
           = (Inr \<lparr>content = [\<lparr>ctype = ''text'',
                                ctext = ''DELETE completed: 0 successful, 1 failed'' @ tail\<rparr>],
                   isError = None\<rparr>,
              [Api stub_conn (SObjectDestroy ''Account'' [JStr ''001A''])])"
    using dmlRecords_counts [of "dml_call ''delete'' [hd two_records] None"
        "SObjectDestroy ''Account'' [JStr ''001A'']" "[JStr ''001A'']" "[]" ?pl "[]" stub_conn
        "ResultOne locked_result" "[locked_result]" locked_result]
    by (simp add: dml_call_def u n locked_result_def two_records_def get_prop_def)
  have 3: "dmlRecords ?ps stub_conn (dml_call ''update'' two_records None) []
       = (Inr \<lparr>content = [\<lparr>ctype = ''text'', ctext = ''UPDATE completed: 2 successful, 0 failed''\<rparr>],
               isError = None\<rparr>,
          [Api stub_conn (SObjectUpdate ''Account'' two_records)])"
    using dmlRecords_counts [of "dml_call ''update'' two_records None"
        "SObjectUpdate ''Account'' two_records" "[]" "[]" ?ps "[]" stub_conn
        "ResultArray saved_results" saved_results]
    by (auto simp: dml_call_def u n k)
  have 4: "dmlRecords ?ps stub_conn (dml_call ''upsert'' two_records (Some ''Ext__c'')) []
       = (Inr \<lparr>content = [\<lparr>ctype = ''text'', ctext = ''UPSERT completed: 2 successful, 0 failed''\<rparr>],
               isError = None\<rparr>,
          [Api stub_conn (SObjectUpsert ''Account'' two_records ''Ext__c'')])"
    using dmlRecords_counts [of "dml_call ''upsert'' two_records (Some ''Ext__c'')"
        "SObjectUpsert ''Account'' two_records ''Ext__c''" "[]" "''Ext__c''" ?ps "[]" stub_conn
        "ResultArray saved_results" saved_results]
    by (auto simp: dml_call_def u n k)
  show ?thesis
    using 1 2 3 4 by blast
qed

section \<open>manageFieldPermissions: grant, revoke and the default profile\<close>

lemma sublist_join:
  "x \<in> set xs \<Longrightarrow> sublist x (join sep xs)"
proof (induction sep xs rule: join.induct)
  case (1 sep)
  then show ?case by simp
next
  case (2 sep y)
  then show ?case by simp
next
  case (3 sep y z zs)
  show ?case
  proof (cases "x = y")
    case True
    then show ?thesis by (simp add: sublist_append_rightI)
  next
    case False
    with 3 have "sublist x (join sep (z # zs))" by simp
    then obtain ps ss where "join sep (z # zs) = ps @ x @ ss"
      unfolding sublist_def by blast
    then have "join sep (y # z # zs) = (y @ sep @ ps) @ x @ ss" by simp
    then show ?thesis
      unfolding sublist_def by blast
  qed
qed

lemma grantFieldPermissions_returns:
  "fst (grantFieldPermissions p conn objectName fieldName profileNames tr) = Inr ()"
  by (induction profileNames arbitrary: tr) simp_all

lemma permission_loop_revoke:
  "fp_operation args = ''revoke'' \<Longrightarrow>
   permission_loop p conn args ps results tr
     = (results @ map (\<lambda>pn. ''Revoked from '' @ pn) ps, tr)"
  by (induction ps arbitrary: results) simp_all

lemma permission_loop_grant:
  "fp_operation args = ''grant'' \<Longrightarrow>
   fst (permission_loop p conn args ps results tr)
     = results @ map (\<lambda>pn. ''Granted to '' @ pn) ps"
proof (induction ps arbitrary: results tr)
  case Nil
  then show ?case by simp
next
  case (Cons pn ps)
  obtain r tr' where g: "grantFieldPermissions p conn (fp_objectName args) (fp_fieldName args) [pn] tr = (r, tr')"
    by (cases "grantFieldPermissions p conn (fp_objectName args) (fp_fieldName args) [pn] tr")
  then have "r = Inr ()"
    using grantFieldPermissions_returns [of p conn "fp_objectName args" "fp_fieldName args" "[pn]" tr] by simp
  with g Cons show ?case by simp
qed

lemma permission_loop_profileNames:
  "permission_loop p conn (args\<lparr>fp_profileNames := x\<rparr>) ps results tr
     = permission_loop p conn args ps results tr"
  by (induction ps arbitrary: results tr) (simp_all split: prod.splits sum.splits)

text \<open>
  Claim C3. For operation \<open>revoke\<close> the handler leaves the trace of platform operations
  as it found it (no call is issued for any profile, so nothing on the platform is
  changed), returns a response that is not an error, and the text of the response is the
  lines \<open>Revoked from <profile>\<close>, one for every profile of the list, in order.
\<close>

theorem revoke_reports_without_calls:
  assumes "fp_operation args = ''revoke''"
  shows "manageFieldPermissions p conn args tr
           = (Inr (text_response (join bsn (map (\<lambda>pn. ''Revoked from '' @ pn) (profiles_of args)))), tr)
       \<and> isError (text_response (join bsn (map (\<lambda>pn. ''Revoked from '' @ pn) (profiles_of args)))) = None
       \<and> (\<forall>pn \<in> set (profiles_of args).
            sublist (''Revoked from '' @ pn)
              (join bsn (map (\<lambda>pn. ''Revoked from '' @ pn) (profiles_of args))))"
proof -
  have "manageFieldPermissions p conn args tr
           = (Inr (text_response (join bsn (map (\<lambda>pn. ''Revoked from '' @ pn) (profiles_of args)))), tr)"
    using assms by (simp add: manageFieldPermissions_def permission_loop_revoke)
  moreover have "\<forall>pn \<in> set (profiles_of args).
            sublist (''Revoked from '' @ pn)
              (join bsn (map (\<lambda>pn. ''Revoked from '' @ pn) (profiles_of args)))"
    by (auto intro!: sublist_join)
  ultimately show ?thesis by (simp add: text_response_def)
qed

theorem revoke_reports_without_calls_witness:
  "fp_operation revoke_two = ''revoke''
   \<and> manageFieldPermissions stub_platform stub_conn revoke_two []
       = (Inr (text_response (''Revoked from Sales'' @ bsn @ ''Revoked from Support'')), [])"
proof -
  have h: "fp_operation revoke_two = ''revoke''"
    by (simp add: revoke_two_def)
  show ?thesis
    using h revoke_reports_without_calls [OF h, of stub_platform stub_conn "[]"]
    by (simp add: profiles_of_def revoke_two_def)
qed

text \<open>
  Claim C10. When \<open>profileNames\<close> is absent and the operation is \<open>grant\<close> or
  \<open>revoke\<close>, the handler returns what it returns for the list holding only
  \<open>System Administrator\<close>, trace included; that profile is the only one processed (the
  trace grows by the operations of the one grant, or not at all for revoke) and the only
  one named in the response.
\<close>

theorem default_profile:
  assumes "fp_profileNames args = None"
    and "fp_operation args = ''grant'' \<or> fp_operation args = ''revoke''"
  shows "manageFieldPermissions p conn args tr
           = manageFieldPermissions p conn (args\<lparr>fp_profileNames := Some [''System Administrator'']\<rparr>) tr
       \<and> (fp_operation args = ''grant'' \<longrightarrow>
            manageFieldPermissions p conn args tr
              = (Inr (text_response ''Granted to System Administrator''),
                 grant_one p conn (fp_objectName args) (fp_fieldName args) ''System Administrator'' tr))
       \<and> (fp_operation args = ''revoke'' \<longrightarrow>
            manageFieldPermissions p conn args tr
              = (Inr (text_response ''Revoked from System Administrator''), tr))"
  using assms
  by (auto simp: manageFieldPermissions_def profiles_of_def permission_loop_profileNames)

theorem default_profile_witness:
  "fp_profileNames grant_default = None
   \<and> fp_operation grant_default = ''grant''
   \<and> manageFieldPermissions stub_platform stub_conn grant_default []
       = (Inr (text_response ''Granted to System Administrator''),
          [Api stub_conn (Query (profile_soql ''System Administrator''))])"
proof -
  have h: "fp_profileNames grant_default = None"
    and o: "fp_operation grant_default = ''grant'' \<or> fp_operation grant_default = ''revoke''"
    by (simp_all add: grant_default_def)
  have g: "grant_one stub_platform stub_conn (fp_objectName grant_default) (fp_fieldName grant_default)
             ''System Administrator'' []
           = [Api stub_conn (Query (profile_soql ''System Administrator''))]"
    by (simp add: grant_one_def stub_platform_def)
  have op: "fp_operation grant_default = ''grant''"
    by (simp add: grant_default_def)
  have "manageFieldPermissions stub_platform stub_conn grant_default []
          = (Inr (text_response ''Granted to System Administrator''),
             grant_one stub_platform stub_conn (fp_objectName grant_default) (fp_fieldName grant_default)
               ''System Administrator'' [])"
    using default_profile [OF h o, of stub_platform stub_conn "[]"] op by blast
  then show ?thesis
    using h op g by simp
qed

lemma grant_reports_only_success:
  assumes "fp_operation args = ''grant''"
  shows "fst (manageFieldPermissions p conn args tr)
           = Inr (text_response (join bsn (map (\<lambda>pn. ''Granted to '' @ pn) (profiles_of args))))"
proof -
  obtain results tr' where l: "permission_loop p conn args (profiles_of args) [] tr = (results, tr')"
    by (cases "permission_loop p conn args (profiles_of args) [] tr")
  then have "results = map (\<lambda>pn. ''Granted to '' @ pn) (profiles_of args)"
    using permission_loop_grant [OF assms, of p conn "profiles_of args" "[]" tr] by simp
  with l assms show ?thesis
    by (simp add: manageFieldPermissions_def)
qed

text \<open>
  Claim C2, at the input of the claim: the profile query for \<open>A\<close> throws, the grant to
  \<open>B\<close> goes through. The handler goes on to \<open>B\<close> after \<open>A\<close>, so the profiles are
  processed independently, but the error thrown for \<open>A\<close> is swallowed inside
  \<^verbatim>\<open>grantFieldPermissions\<close> and the response reads \<open>Granted to A\<close>: the failure is
  not reported.
\<close>

theorem grant_failure_reported_as_granted:
  "query_reply flaky_platform [] (Api stub_conn (Query (profile_soql ''A''))) = Inl (Error ''INVALID_SESSION_ID'')
   \<and> manageFieldPermissions flaky_platform stub_conn grant_AB []
       = (Inr (text_response (''Granted to A'' @ bsn @ ''Granted to B'')),
          [Api stub_conn (Query (profile_soql ''A'')),
           Api stub_conn (Query (profile_soql ''B'')),
           Api stub_conn (Query (permset_soql (JStr ''00e1''))),
           Api stub_conn (SObjectCreateOne ''FieldPermissions''
                            (field_permission (JStr ''00e1'') ''Account'' ''Rating''))])"
  by code_simp

section \<open>Session acquisition\<close>

lemma member_field_of:
  "body \<noteq> JNull \<Longrightarrow> body \<noteq> JUndefined \<Longrightarrow> member body k = Inr (field_of body k)"
  by (cases body) (simp_all add: field_of_def)

text \<open>
  Claim C5. For a configuration of the OAuth client-credentials type with a client id, a
  client secret and an instance URL the runtime accepts, when the token endpoint answers
  with a status and a body that parses as JSON (to any value but \<^verbatim>\<open>null\<close>, which has no
  fields): with status 200 the session holds the body's \<open>instance_url\<close> and
  \<open>access_token\<close>; with any other status the acquisition fails with the error whose
  message carries the body's \<open>error\<close> and \<open>error_description\<close>. In both cases the
  token request is the one operation issued. (The source has a single error class; the
  message tells the kind.)
\<close>

theorem oauth_session_from_token_response:
  assumes "connectionType config = ''OAuth_2.0_Client_Credentials''"
    and "present (clientId config)" and "present (clientSecret config)"
    and "URL_ok p (cfg_instanceUrl config)"
    and "token_reply p tr (TokenPost (cfg_instanceUrl config) (or_default (clientId config) [])
                             (or_default (clientSecret config) []))
           = HttpResponse statusCode data"
    and "JSON_parse p data = Inr body" and "body \<noteq> JNull" and "body \<noteq> JUndefined"
  shows "(statusCode = 200 \<longrightarrow>
            createSalesforceConnection p config tr
              = (Inr \<lparr>instanceUrl = field_of body ''instance_url'',
                      accessToken = field_of body ''access_token'', version = None\<rparr>,
                 tr @ [TokenPost (cfg_instanceUrl config) (or_default (clientId config) [])
                         (or_default (clientSecret config) [])]))
       \<and> (statusCode \<noteq> 200 \<longrightarrow>
            createSalesforceConnection p config tr
              = (Inl (Error (''OAuth failed: '' @ toString (field_of body ''error'') @ '' - ''
                             @ toString (field_of body ''error_description''))),
                 tr @ [TokenPost (cfg_instanceUrl config) (or_default (clientId config) [])
                         (or_default (clientSecret config) [])]))"
  using assms
  by (simp add: createSalesforceConnection_def createConnectionInternal_def token_response_end_def
      member_field_of)

theorem oauth_session_from_token_response_witness:
  "createSalesforceConnection granting_platform oauth_config []
     = (Inr \<lparr>instanceUrl = JStr ''https://acme.my.salesforce.com'', accessToken = JStr ''00Dxx!AQ4'',
             version = None\<rparr>,
        [TokenPost ''https://acme.my.salesforce.com'' ''3MVG9'' ''s3cret''])
   \<and> createSalesforceConnection rejecting_platform oauth_config []
     = (Inl (Error ''OAuth failed: invalid_client - invalid client credentials''),
        [TokenPost ''https://acme.my.salesforce.com'' ''3MVG9'' ''s3cret''])"
proof -
  have c: "connectionType oauth_config = ''OAuth_2.0_Client_Credentials''"
    "present (clientId oauth_config)" "present (clientSecret oauth_config)"
    by (simp_all add: oauth_config_def present_def)
  have u: "URL_ok granting_platform (cfg_instanceUrl oauth_config)"
    "URL_ok rejecting_platform (cfg_instanceUrl oauth_config)"
    by (simp_all add: granting_platform_def rejecting_platform_def stub_platform_def)
  have n: "JObj token_body \<noteq> JNull" "JObj token_body \<noteq> JUndefined"
    "JObj rejection_body \<noteq> JNull" "JObj rejection_body \<noteq> JUndefined"
    by simp_all
  have g: "token_reply granting_platform [] (TokenPost (cfg_instanceUrl oauth_config)
             (or_default (clientId oauth_config) []) (or_default (clientSecret oauth_config) []))
           = HttpResponse 200 ''token''"
    "JSON_parse granting_platform ''token'' = Inr (JObj token_body)"
    by (simp_all add: granting_platform_def)
  have r: "token_reply rejecting_platform [] (TokenPost (cfg_instanceUrl oauth_config)
             (or_default (clientId oauth_config) []) (or_default (clientSecret oauth_config) []))
           = HttpResponse 400 ''rejection''"
    "JSON_parse rejecting_platform ''rejection'' = Inr (JObj rejection_body)"
    by (simp_all add: rejecting_platform_def)
  show ?thesis
    using oauth_session_from_token_response [OF c u(1) g n(1,2)]
      oauth_session_from_token_response [OF c u(2) r n(3,4)]
    by (simp add: oauth_config_def or_default_def get_prop_def field_of_def token_body_def
        rejection_body_def)
qed

lemma oauth_null_body:
  assumes "connectionType config = ''OAuth_2.0_Client_Credentials''"
    and "present (clientId config)" and "present (clientSecret config)"
    and "URL_ok p (cfg_instanceUrl config)"
    and "token_reply p tr (TokenPost (cfg_instanceUrl config) (or_default (clientId config) [])
                             (or_default (clientSecret config) []))
           = HttpResponse statusCode data"
    and "JSON_parse p data = Inr JNull"
  shows "\<exists>m. fst (createSalesforceConnection p config tr)
               = Inl (if statusCode = 200 then TypeError m
                      else Error (''Failed to parse OAuth response: TypeError: '' @ m))"
  using assms
  by (simp add: createSalesforceConnection_def createConnectionInternal_def token_response_end_def)

lemma connection_oauth_session_from_token_response:
  assumes "or_default (env ''SALESFORCE_CONNECTION_TYPE'') (User_Password ct) = OAuth_2_0_Client_Credentials ct"
    and "present (env ''SALESFORCE_CLIENT_ID'')" and "present (env ''SALESFORCE_CLIENT_SECRET'')"
    and "URL_ok p (or_default (env ''SALESFORCE_INSTANCE_URL'') ''https://login.salesforce.com'')"
    and "token_reply p tr (TokenPost (or_default (env ''SALESFORCE_INSTANCE_URL'') ''https://login.salesforce.com'')
                             (or_default (env ''SALESFORCE_CLIENT_ID'') [])
                             (or_default (env ''SALESFORCE_CLIENT_SECRET'') []))
           = HttpResponse statusCode data"
    and "JSON_parse p data = Inr (JObj body)"
  shows "fst (connection_createSalesforceConnection p ct env tr)
           = (if statusCode = 200
              then Inr \<lparr>instanceUrl = get_prop body ''instance_url'',
                        accessToken = get_prop body ''access_token'', version = None\<rparr>
              else Inl (Error (''OAuth failed: '' @ toString (get_prop body ''error'') @ '' - ''
                               @ toString (get_prop body ''error_description''))))"
  using assms
  by (simp add: connection_createSalesforceConnection_def token_response_end_def Let_def)

lemma initConfig_instanceUrl:
  "cfg_instanceUrl (initConfig p env) \<noteq> []"
  by (simp add: initConfig_def or_default_def split: option.splits)

text \<open>
  Claim C6, as stated, fails for the security token: a password configuration without
  a security token does not fail, and issues the login.
\<close>

theorem missing_securityToken_logs_in:
  "securityToken password_config = None
   \<and> createSalesforceConnection stub_platform password_config []
       = (Inr \<lparr>instanceUrl = JStr ''https://na1.salesforce.com'', accessToken = JStr ''SESSION'',
               version = Some ''58.0''\<rparr>,
          [Login ''https://login.salesforce.com'' (Some ''58.0'') ''dev@example.com'' ''hunter2''])"
  by code_simp

text \<open>
  Claim C6, amended. A configuration that lacks the user name or the password (password
  flow), or the client id or the client secret (OAuth flow), fails with the error naming
  them, and the trace is unchanged: no network operation is attempted. The instance URL of
  a loaded configuration is never empty.
\<close>

theorem missing_credentials_fail_offline:
  assumes "(connectionType config = ''OAuth_2.0_Client_Credentials''
              \<and> (\<not> present (clientId config) \<or> \<not> present (clientSecret config)))
         \<or> (connectionType config \<noteq> ''OAuth_2.0_Client_Credentials''
              \<and> (\<not> present (username config) \<or> \<not> present (password config)))"
  shows "createSalesforceConnection p config tr
           = (Inl (Error (if connectionType config = ''OAuth_2.0_Client_Credentials''
                          then ''Client ID and Client Secret are required for OAuth 2.0''
                          else ''Username and Password are required'')), tr)
       \<and> cfg_instanceUrl (initConfig p env) \<noteq> []"
  using assms initConfig_instanceUrl [of p env]
  by (auto simp: createSalesforceConnection_def createConnectionInternal_def)

theorem missing_credentials_fail_offline_witness:
  "\<not> present (clientSecret (oauth_config\<lparr>clientSecret := None\<rparr>))
   \<and> createSalesforceConnection granting_platform (oauth_config\<lparr>clientSecret := None\<rparr>) []
       = (Inl (Error ''Client ID and Client Secret are required for OAuth 2.0''), [])
   \<and> \<not> present (password (password_config\<lparr>password := Some []\<rparr>))
   \<and> createSalesforceConnection stub_platform (password_config\<lparr>password := Some []\<rparr>) []
       = (Inl (Error ''Username and Password are required''), [])"
proof -
  have a: "(connectionType (oauth_config\<lparr>clientSecret := None\<rparr>) = ''OAuth_2.0_Client_Credentials''
              \<and> (\<not> present (clientId (oauth_config\<lparr>clientSecret := None\<rparr>))
                  \<or> \<not> present (clientSecret (oauth_config\<lparr>clientSecret := None\<rparr>))))
         \<or> (connectionType (oauth_config\<lparr>clientSecret := None\<rparr>) \<noteq> ''OAuth_2.0_Client_Credentials''
              \<and> (\<not> present (username (oauth_config\<lparr>clientSecret := None\<rparr>))
                  \<or> \<not> present (password (oauth_config\<lparr>clientSecret := None\<rparr>))))"
    by (simp add: oauth_config_def present_def)
  have b: "(connectionType (password_config\<lparr>password := Some []\<rparr>) = ''OAuth_2.0_Client_Credentials''
              \<and> (\<not> present (clientId (password_config\<lparr>password := Some []\<rparr>))
                  \<or> \<not> present (clientSecret (password_config\<lparr>password := Some []\<rparr>))))
         \<or> (connectionType (password_config\<lparr>password := Some []\<rparr>) \<noteq> ''OAuth_2.0_Client_Credentials''
              \<and> (\<not> present (username (password_config\<lparr>password := Some []\<rparr>))
                  \<or> \<not> present (password (password_config\<lparr>password := Some []\<rparr>))))"
    by (simp add: password_config_def present_def)
  show ?thesis
    using missing_credentials_fail_offline [OF a, of granting_platform "[]" Map.empty]
      missing_credentials_fail_offline [OF b, of stub_platform "[]" Map.empty]
    by (simp add: oauth_config_def password_config_def present_def)
qed

lemma connection_missing_credentials_fail_offline:
  assumes "(or_default (env ''SALESFORCE_CONNECTION_TYPE'') (User_Password ct) = OAuth_2_0_Client_Credentials ct
              \<and> (\<not> present (env ''SALESFORCE_CLIENT_ID'') \<or> \<not> present (env ''SALESFORCE_CLIENT_SECRET'')))
         \<or> (or_default (env ''SALESFORCE_CONNECTION_TYPE'') (User_Password ct) \<noteq> OAuth_2_0_Client_Credentials ct
              \<and> (\<not> present (env ''SALESFORCE_USERNAME'') \<or> \<not> present (env ''SALESFORCE_PASSWORD'')))"
  shows "\<exists>m. connection_createSalesforceConnection p ct env tr = (Inl (Error m), tr)"
  using assms
  by (auto simp: connection_createSalesforceConnection_def Let_def)

lemma connection_missing_securityToken_logs_in:
  assumes "or_default (env ''SALESFORCE_CONNECTION_TYPE'') (User_Password ct) \<noteq> OAuth_2_0_Client_Credentials ct"
    and "present (env ''SALESFORCE_USERNAME'')" and "present (env ''SALESFORCE_PASSWORD'')"
    and "env ''SALESFORCE_TOKEN'' = None"
  shows "snd (connection_createSalesforceConnection p ct env tr)
           = tr @ [Login (or_default (env ''SALESFORCE_INSTANCE_URL'') ''https://login.salesforce.com'') None
                     (or_default (env ''SALESFORCE_USERNAME'') [])
                     (or_default (env ''SALESFORCE_PASSWORD'') [])]"
  using assms
  by (auto simp: connection_createSalesforceConnection_def Let_def or_default_def split: sum.splits)

section \<open>Upsert without an external id field\<close>

text \<open>
  Claim C4, as stated, fails for the session acquisition: \<^verbatim>\<open>handleToolCall\<close> acquires the
  session before it dispatches, so the login has been issued when the check of
  \<^verbatim>\<open>dmlRecords\<close> throws.
\<close>

theorem upsert_check_follows_login:
  "\<not> present (dml_externalIdField upsert_without_key)
   \<and> handleToolCall stub_platform password_config (salesforce_dml_records upsert_without_key) []
       = (error_response (Error ''externalIdField required for upsert''),
          [Login ''https://login.salesforce.com'' (Some ''58.0'') ''dev@example.com'' ''hunter2''])"
  by code_simp

text \<open>
  Claim C4, amended. For operation \<open>upsert\<close> without an external id field the handler
  throws before it issues any call (its trace is unchanged), so the network operations of
  the whole tool call are exactly those of the session acquisition that precedes the
  dispatch, the upsert is never issued, and once the session is acquired the response is
  the error response with the message of the check.
\<close>

theorem upsert_without_externalIdField:
  assumes "dml_operation args = ''upsert''" and "\<not> present (dml_externalIdField args)"
  shows "dmlRecords p conn args tr = (Inl (Error ''externalIdField required for upsert''), tr)
       \<and> snd (handleToolCall p config (salesforce_dml_records args) tr)
           = snd (createSalesforceConnection p config tr)
       \<and> (\<forall>c tr'. createSalesforceConnection p config tr = (Inr c, tr') \<longrightarrow>
            handleToolCall p config (salesforce_dml_records args) tr
              = (error_response (Error ''externalIdField required for upsert''), tr'))
       \<and> isError (error_response (Error ''externalIdField required for upsert'')) = Some True"
proof -
  have d: "\<And>c t. dmlRecords p c args t = (Inl (Error ''externalIdField required for upsert''), t)"
    using assms by (simp add: dmlRecords_def)
  show ?thesis
    by (cases "createSalesforceConnection p config tr")
      (auto simp: handleToolCall_def d error_response_def split: sum.splits)
qed

theorem upsert_without_externalIdField_witness:
  "dml_operation upsert_without_key = ''upsert''
   \<and> \<not> present (dml_externalIdField upsert_without_key)
   \<and> dmlRecords stub_platform stub_conn upsert_without_key []
       = (Inl (Error ''externalIdField required for upsert''), [])
   \<and> snd (handleToolCall stub_platform password_config (salesforce_dml_records upsert_without_key) [])
       = snd (createSalesforceConnection stub_platform password_config [])"
proof -
  have h: "dml_operation upsert_without_key = ''upsert''" "\<not> present (dml_externalIdField upsert_without_key)"
    by (simp_all add: upsert_without_key_def present_def)
  show ?thesis
    using h upsert_without_externalIdField [OF h, of stub_platform stub_conn "[]" password_config]
    by simp
qed

section \<open>aggregateQuery: alias first, then the bare field\<close>

lemma group_value_alias:
  "truthy (get_prop record (alias_of field)) \<Longrightarrow>
   group_value record field = get_prop record (alias_of field)"
  by (simp add: group_value_def js_or_def)

lemma group_value_fallback:
  "\<not> truthy (get_prop record (alias_of field)) \<Longrightarrow>
   group_value record field = get_prop record (baseField_of field)"
  by (simp add: group_value_def js_or_def)

text \<open>
  Claim C7, at a group whose aggregate is zero. The platform returns the value \<open>0\<close> under
  the alias \<open>total\<close>; \<^verbatim>\<open>record[alias] || record[baseField]\<close> discards it as falsy, falls
  back to the key \<open>SUM(Amount)\<close>, which is absent, and the line reads \<open>total: null\<close>:
  the value present under the alias is not the one rendered.
\<close>

theorem zero_aggregate_rendered_null:
  "alias_of ''SUM(Amount) total'' = ''total''
   \<and> baseField_of ''SUM(Amount) total'' = ''SUM(Amount)''
   \<and> get_prop zero_group ''total'' = JNum 0
   \<and> aggregateQuery zero_platform stub_conn sum_by_stage []
       = (Inr (text_response (''Aggregate query returned 1 groups:'' @ bsn @ bsn @ ''Group 1:'' @ bsn
                              @ ''    StageName: Prospecting'' @ bsn @ ''    total: null'')),
          [Api stub_conn (Query ''SELECT StageName, SUM(Amount) total FROM Opportunity GROUP BY StageName'')])"
  by code_simp

section \<open>manageObject: what an update submits\<close>

lemma get_prop_update:
  "get_prop (AList.update k v kvs) k' = (if k' = k then v else get_prop kvs k')"
  by (simp add: get_prop_def update_conv')

lemma get_prop_override:
  "get_prop (override k x kvs) k' = (if k' = k \<and> present x then opt_val x else get_prop kvs k')"
  by (simp add: override_def get_prop_update)

text \<open>
  The handler of tools/manageObject: every attribute of the current descriptor is
  submitted as it was read, unless it is the name field or the call names it.
\<close>

lemma merge_frame:
  assumes "k \<noteq> ''nameField''"
    and "k = ''label'' \<longrightarrow> \<not> present (mo_label args)"
    and "k = ''pluralLabel'' \<longrightarrow> \<not> present (mo_pluralLabel args)"
    and "k = ''description'' \<longrightarrow> \<not> present (mo_description args)"
    and "k = ''sharingModel'' \<longrightarrow> \<not> present (mo_sharingModel args)"
  shows "get_prop (merge (JObj current) args) k = get_prop current k"
  using assms by (auto simp: merge_def get_prop_update get_prop_override spread_def)

lemma merge_nameField_frame:
  assumes "get_prop current ''nameField'' = JObj nameField"
    and "k = ''label'' \<longrightarrow> \<not> present (mo_nameFieldLabel args)"
    and "k = ''type'' \<longrightarrow> \<not> present (mo_nameFieldType args)"
    and "k = ''displayFormat'' \<longrightarrow> \<not> present (mo_nameFieldFormat args)"
  shows "\<exists>nf. get_prop (merge (JObj current) args) ''nameField'' = JObj nf
              \<and> get_prop nf k = get_prop nameField k"
  using assms
  by (auto simp: merge_def get_prop_update get_prop_override spread_def current_nameField_def js_or_def)

lemma merge_override:
  "present (mo_label args) \<Longrightarrow> get_prop (merge current args) ''label'' = opt_val (mo_label args)"
  "present (mo_pluralLabel args) \<Longrightarrow> get_prop (merge current args) ''pluralLabel'' = opt_val (mo_pluralLabel args)"
  "present (mo_description args) \<Longrightarrow> get_prop (merge current args) ''description'' = opt_val (mo_description args)"
  "present (mo_sharingModel args) \<Longrightarrow> get_prop (merge current args) ''sharingModel'' = opt_val (mo_sharingModel args)"
  by (simp_all add: merge_def get_prop_update get_prop_override)

lemma manageObject_tool_update_trace:
  assumes "mo_operation args \<noteq> ''create''"
    and "metadata_reply p tr (Api conn (MetadataRead ''CustomObject'' [mo_objectName args])) = Inr (JObj current)"
  shows "snd (manageObject_tool p conn args tr)
           = tr @ [Api conn (MetadataRead ''CustomObject'' [mo_objectName args]),
                   Api conn (MetadataCall ''update'' ''CustomObject'' (JObj (merge (JObj current) args)))]"
  using assms by (simp add: manageObject_tool_def Let_def split: sum.splits)

text \<open>
  The handlers of index.ts: the one operation issued is the metadata call whose
  descriptor is built from the arguments; nothing is read first.
\<close>

lemma manageObject_trace:
  "snd (manageObject p conn args tr)
     = tr @ [Api conn (MetadataCall (mo_operation args) ''CustomObject'' (JObj (manageObject_metadata args)))]"
  by (simp add: manageObject_def Let_def split: sum.splits)

lemma manageObject_metadata_defaults:
  "\<not> present (mo_sharingModel args) \<Longrightarrow>
   get_prop (manageObject_metadata args) ''sharingModel'' = JStr ''ReadWrite''"
  "get_prop (manageObject_metadata args) ''deploymentStatus'' = JStr ''Deployed''"
  by (auto simp: manageObject_metadata_def Let_def get_prop_update get_prop_def or_default_def present_def
      split: option.splits)

lemma manageField_first_call:
  "\<exists>rest. snd (manageField p conn args tr)
     = tr @ Api conn (MetadataCall (mf_operation args) ''CustomField'' (JObj (manageField_metadata args))) # rest"
proof -
  have g: "\<And>ps t. \<exists>rest. snd (grantFieldPermissions p conn (mf_objectName args) (mf_fieldName args) ps t) = t @ rest"
  proof -
    fix ps t
    show "\<exists>rest. snd (grantFieldPermissions p conn (mf_objectName args) (mf_fieldName args) ps t) = t @ rest"
    proof (induction ps arbitrary: t)
      case Nil
      then show ?case by simp
    next
      case (Cons pn ps)
      have "\<exists>r. grant_one p conn (mf_objectName args) (mf_fieldName args) pn t = t @ r"
        by (auto simp: grant_one_def Let_def split: sum.splits list.splits)
      then obtain r where r: "grant_one p conn (mf_objectName args) (mf_fieldName args) pn t = t @ r"
        by blast
      obtain rest where "snd (grantFieldPermissions p conn (mf_objectName args) (mf_fieldName args) ps (t @ r))
                           = (t @ r) @ rest"
        using Cons.IH by blast
      then show ?case using r by simp
    qed
  qed
  let ?c = "Api conn (MetadataCall (mf_operation args) ''CustomField'' (JObj (manageField_metadata args)))"
  show ?thesis
  proof (cases "\<exists>result ok ps. metadata_reply p tr ?c = Inr result \<and> result_success result = Inr ok
                  \<and> mf_grantAccessTo args = Some ps \<and> truthy ok \<and> mf_operation args = ''create''")
    case True
    then obtain result ok ps where h: "metadata_reply p tr ?c = Inr result" "result_success result = Inr ok"
      "mf_grantAccessTo args = Some ps" "truthy ok" "mf_operation args = ''create''"
      by blast
    obtain rest where "snd (grantFieldPermissions p conn (mf_objectName args) (mf_fieldName args) ps (tr @ [?c]))
                         = (tr @ [?c]) @ rest"
      using g by blast
    then show ?thesis
      using h by (auto simp: manageField_def Let_def split: sum.splits prod.splits)
  next
    case False
    then have "snd (manageField p conn args tr) = tr @ [?c]"
      by (auto simp: manageField_def Let_def split: sum.splits option.splits prod.splits)
    then show ?thesis by simp
  qed
qed

text \<open>
  Claim C1, at an update that names the label only. The platform stores the object as
  private, with a description and an auto-number name field. The handler of index.ts
  issues the update without reading: the descriptor it submits is built from the
  arguments and resets the sharing model to \<open>ReadWrite\<close>, the name field to a text field,
  and drops the description. The handler of tools/manageObject, on the same platform,
  reads first and submits the stored descriptor with the label replaced.
\<close>

theorem update_overwrites_unnamed_attributes:
  "metadata_reply stored_platform [] (Api stub_conn (MetadataRead ''CustomObject'' [''Invoice__c'']))
     = Inr (JArr [JObj stored_invoice])
   \<and> get_prop stored_invoice ''sharingModel'' = JStr ''Private''
   \<and> mo_sharingModel (relabel_invoice ''Invoice'') = None
   \<and> manageObject stored_platform stub_conn (relabel_invoice ''Invoice'') []
       = (Inr (text_response ''Successfully updated custom object Invoice__c''),
          [Api stub_conn (MetadataCall ''update'' ''CustomObject''
             (JObj [(''fullName'', JStr ''Invoice__c''),
                    (''label'', JStr ''Bill''),
                    (''pluralLabel'', JUndefined),
                    (''nameField'', JObj [(''label'', JStr ''Bill Name''), (''type'', JStr ''Text'')]),
                    (''deploymentStatus'', JStr ''Deployed''),
                    (''sharingModel'', JStr ''ReadWrite'')]))])
   \<and> manageObject_tool stored_platform stub_conn (relabel_invoice ''Invoice__c'') []
       = (tool_response ''Successfully updated custom object Invoice__c'' False,
          [Api stub_conn (MetadataRead ''CustomObject'' [''Invoice__c'']),
           Api stub_conn (MetadataCall ''update'' ''CustomObject''
             (JObj (AList.update ''label'' (JStr ''Bill'') stored_invoice)))])"
  by code_simp

end
